theory Spec2Isabelle
  imports Complex_Main
begin

section \<open>The withdrawal request handler\<close>

text \<open>
  A shallow embedding of the withdrawal edge function (the \<^verbatim>\<open>serve\<close> callback): fee
  computation, validation, recipient resolution, transfer initiation and the final
  wallet and ledger writes.

  Conventions of the model:
  \<^item> a JavaScript \<^verbatim>\<open>number\<close> that carries money is a \<^typ>\<open>rat\<close> and arithmetic on it is
    exact; the rounding of IEEE-754 doubles is not modelled. Results of
    \<^verbatim>\<open>Math.floor\<close> and \<^verbatim>\<open>Math.round\<close> are of type \<^typ>\<open>int\<close>;
  \<^item> a JavaScript string is a \<^typ>\<open>string\<close> of ASCII characters; case conversion and
    whitespace are those of ASCII;
  \<^item> a value that may be \<^verbatim>\<open>undefined\<close> is an \<^typ>\<open>'a option\<close>;
  \<^item> the identity service, the database and the payment provider are outside the
    program: their answers are the fields of an environment record, their effects are
    written into an explicit world state (wallet table, ledger table, and the trace of
    outbound calls in the order they are made).
\<close>

subsection \<open>JavaScript strings\<close>

definition lower_char :: "char \<Rightarrow> char" where
  "lower_char c =
     (case map_of (zip ''ABCDEFGHIJKLMNOPQRSTUVWXYZ'' ''abcdefghijklmnopqrstuvwxyz'') c of
        Some d \<Rightarrow> d | None \<Rightarrow> c)"

definition upper_char :: "char \<Rightarrow> char" where
  "upper_char c =
     (case map_of (zip ''abcdefghijklmnopqrstuvwxyz'' ''ABCDEFGHIJKLMNOPQRSTUVWXYZ'') c of
        Some d \<Rightarrow> d | None \<Rightarrow> c)"

definition toLowerCase :: "string \<Rightarrow> string" where
  "toLowerCase s = map lower_char s"

definition toUpperCase :: "string \<Rightarrow> string" where
  "toUpperCase s = map upper_char s"

fun startsWith :: "string \<Rightarrow> string \<Rightarrow> bool" where
  "startsWith s [] = True"
| "startsWith [] (p # ps) = False"
| "startsWith (c # cs) (p # ps) = (c = p \<and> startsWith cs ps)"

text \<open>\<^verbatim>\<open>s.includes(sub)\<close>: \<open>sub\<close> occurs in \<open>s\<close> as a contiguous block.\<close>

fun str_includes :: "string \<Rightarrow> string \<Rightarrow> bool" where
  "str_includes [] sub = (sub = [])"
| "str_includes (c # cs) sub = (startsWith (c # cs) sub \<or> str_includes cs sub)"

text \<open>The characters matched by \<^verbatim>\<open>\s\<close> and stripped by \<^verbatim>\<open>trim()\<close>, within ASCII.\<close>

definition is_space :: "char \<Rightarrow> bool" where
  "is_space c = (c \<in> set [CHR '' '', CHR 0x09, CHR 0x0A, CHR 0x0B, CHR 0x0C, CHR 0x0D])"

definition trim :: "string \<Rightarrow> string" where
  "trim s = rev (dropWhile is_space (rev (dropWhile is_space s)))"

text \<open>Decimal rendering of an integer, as a template literal renders an integral number
  (of magnitude below \<open>10^21\<close>).\<close>

definition digit_char :: "nat \<Rightarrow> char" where
  "digit_char d = ''0123456789'' ! (d mod 10)"

fun show_nat :: "nat \<Rightarrow> string" where
  "show_nat n = (if n < 10 then [digit_char n] else show_nat (n div 10) @ [digit_char (n mod 10)])"

declare show_nat.simps [simp del]

definition show_int :: "int \<Rightarrow> string" where
  "show_int i = (if i < 0 then CHR ''-'' # show_nat (nat (- i)) else show_nat (nat i))"

text \<open>\<^verbatim>\<open>${x}\<close> in a template literal, for a string that may be undefined.\<close>

definition template :: "string option \<Rightarrow> string" where
  "template x = (case x of None \<Rightarrow> ''undefined'' | Some s \<Rightarrow> s)"

text \<open>Truthiness of a string that may be undefined, and \<^verbatim>\<open>x || d\<close>.\<close>

definition truthy :: "string option \<Rightarrow> bool" where
  "truthy x = (case x of None \<Rightarrow> False | Some s \<Rightarrow> s \<noteq> [])"

definition or_default :: "string option \<Rightarrow> string \<Rightarrow> string" where
  "or_default x d = (case x of None \<Rightarrow> d | Some s \<Rightarrow> if s = [] then d else s)"

subsection \<open>Fee computation\<close>

text \<open>\<^verbatim>\<open>calculateFee\<close>, with \<^verbatim>\<open>Math.floor\<close> as \<^const>\<open>floor\<close>.\<close>

definition calculateFee :: "rat \<Rightarrow> string \<Rightarrow> int" where
  "calculateFee amt method =
     (if method = ''mpesa'' then
        (if amt \<le> 100 then 0
         else if amt \<le> 2500 then 15
         else if amt \<le> 3500 then 25
         else if amt \<le> 5000 then 30
         else if amt \<le> 7500 then 45
         else if amt \<le> 10000 then 50
         else max 50 \<lfloor>amt * 0.005\<rfloor>)
      else if method = ''airtel'' then
        (if amt \<le> 100 then 0
         else if amt \<le> 2500 then 15
         else if amt \<le> 5000 then 30
         else max 50 \<lfloor>amt * 0.005\<rfloor>)
      else if method = ''bank'' then max 25 \<lfloor>amt * 0.001\<rfloor>
      else 0)"

text \<open>\<^verbatim>\<open>const netAmount = amount - fee\<close>.\<close>

definition netAmount :: "rat \<Rightarrow> string \<Rightarrow> rat" where
  "netAmount amt method = amt - of_int (calculateFee amt method)"

subsection \<open>Data model\<close>

text \<open>Values of a JSON body as far as the handler builds or inspects them.\<close>

datatype jsvalue = JUndefined | JNull | JBool bool | JNum rat | JStr string

type_synonym json_object = "(string \<times> jsvalue) list"

text \<open>\<^verbatim>\<open>JSON.stringify\<close> of an object literal: a field whose value is \<^verbatim>\<open>undefined\<close> is
  left out, the others are kept in the order written.\<close>

definition JSON_stringify :: "json_object \<Rightarrow> json_object" where
  "JSON_stringify obj = filter (\<lambda>kv. snd kv \<noteq> JUndefined) obj"

definition js_string :: "string option \<Rightarrow> jsvalue" where
  "js_string x = (case x of None \<Rightarrow> JUndefined | Some s \<Rightarrow> JStr s)"

text \<open>\<^verbatim>\<open>new Response(body, { status })\<close>; the body of the preflight answer is \<^verbatim>\<open>null\<close>.\<close>

record response =
  status :: nat
  body :: "json_object option"

definition json_response :: "nat \<Rightarrow> json_object \<Rightarrow> response" where
  "json_response st obj = \<lparr>status = st, body = Some (JSON_stringify obj)\<rparr>"

record user =
  user_id :: string
  user_email :: "string option"

record destination_details =
  account_number :: "string option"
  bank_name :: "string option"
  account_name :: "string option"
  phone_number :: "string option"

text \<open>The parsed request body. \<^verbatim>\<open>amount\<close> is left as a JSON value, since the handler
  checks its type; \<^verbatim>\<open>paymentMethod\<close> is taken to be a string.\<close>

record request_body =
  amount :: jsvalue
  paymentMethod :: string
  destinationDetails :: "destination_details option"

text \<open>\<open>req_json\<close> is the result of \<^verbatim>\<open>await req.json()\<close>: \<open>Inl m\<close> when it throws an
  error with message \<open>m\<close>.\<close>

record request =
  req_method :: string
  req_json :: "string + request_body"

text \<open>The answer to a \<^verbatim>\<open>fetch\<close>: it throws an error with a message, or yields a
  response with its \<^verbatim>\<open>ok\<close> flag and the result of \<^verbatim>\<open>.json()\<close> (\<open>Inl m\<close> when parsing
  throws).\<close>

datatype 'a fetch_result = FetchThrows string | FetchResponse bool "string + 'a"

record bank_entry =
  bank_entry_name :: "string option"
  bank_entry_slug :: "string option"
  bank_entry_code :: "string option"

record banks_payload =
  banks_status :: bool
  banks_message :: "string option"
  banks_data :: "bank_entry list"

text \<open>\<open>recipient_data\<close> is \<^verbatim>\<open>data.data\<close>: \<open>None\<close> when the payload has no \<^verbatim>\<open>data\<close>
  object, otherwise its \<^verbatim>\<open>recipient_code\<close>.\<close>

record recipient_payload =
  recipient_status :: bool
  recipient_message :: "string option"
  recipient_data :: "string option option"

record transfer_payload =
  transfer_status :: bool
  transfer_message :: "string option"
  transfer_code :: "string option"
  transfer_reference :: "string option"

text \<open>The JSON bodies posted to \<^verbatim>\<open>/transferrecipient\<close> and \<^verbatim>\<open>/transfer\<close>.\<close>

datatype recipient_request =
    MobileMoney (rq_name: string) (rq_account_number: string)
      (rq_bank_code: "string option") (rq_provider: string)
  | Nuban (rq_account_name: "string option") (rq_nuban_number: "string option")
      (rq_nuban_bank: "string option")

record transfer_request =
  transfer_amount :: int
  transfer_recipient :: "string option"
  transfer_reason :: string
  transfer_ref :: string

record wallet_transaction =
  tx_user_id :: string
  tx_type :: string
  tx_amount :: rat
  tx_description :: string
  tx_status :: string
  tx_reference_id :: string
  tx_payment_method :: string
  tx_destination_details :: destination_details
  tx_fee :: int
  tx_net_amount :: rat

text \<open>Every outbound call that can change something or reaches the payment provider, in
  the order made. \<open>UpdateWallet uid b t\<close> is the update of the wallet row of \<open>uid\<close> to
  balance \<open>b\<close> and timestamp \<open>t\<close>.\<close>

datatype event =
    ListProviders
  | CreateRecipient recipient_request
  | InitiateTransfer transfer_request
  | UpdateWallet string rat string
  | InsertTransaction wallet_transaction

text \<open>
  The environment of one request: what the collaborators answer.
  \<^item> \<open>getUser\<close> is the user the identity service resolves, \<open>None\<close> when it reports an
    error or no user.
  \<^item> The database client reports a failure in the \<^verbatim>\<open>error\<close> field of its result and does
    not throw; a failed write changes nothing. \<open>select_error\<close> says whether the wallet
    query fails for another reason than a missing row; \<open>update_error\<close> and
    \<open>insert_error\<close> are the errors of the two writes, if any.
  \<^item> The payment provider answers a request by its content. The \<^verbatim>\<open>data\<close> of the provider
    list is taken to be an array.
  \<^item> The clock is read at three places.
\<close>

record env =
  getUser :: "user option"
  select_error :: bool
  PAYSTACK_SECRET_KEY :: "string option"
  fetch_banks :: "banks_payload fetch_result"
  fetch_transferrecipient :: "recipient_request \<Rightarrow> recipient_payload fetch_result"
  fetch_transfer :: "transfer_request \<Rightarrow> transfer_payload fetch_result"
  update_error :: "string option"
  insert_error :: "string option"
  now_transfer :: nat
  now_update :: string
  now_insert :: nat

record world =
  user_central_wallets :: "string \<Rightarrow> rat option"
  wallet_transactions :: "wallet_transaction list"
  trace :: "event list"

definition emit :: "event \<Rightarrow> world \<Rightarrow> world" where
  "emit e w = w\<lparr>trace := trace w @ [e]\<rparr>"

text \<open>How the \<^verbatim>\<open>try\<close> block is left: by \<^verbatim>\<open>return\<close> of a response, or by an exception
  with a message. A stage of the handler either leaves the block (\<open>Inl\<close>) or hands a
  value to the next stage (\<open>Inr\<close>).\<close>

datatype exit = Return response | Throw string

type_synonym 'a step = "exit + 'a"

subsection \<open>Validation\<close>

text \<open>What the checks of lines 25 to 103 establish: the user, the amount as a number,
  the method, the destination details and the balance read from the wallet row.\<close>

record validated =
  v_user :: user
  v_amount :: rat
  v_method :: string
  v_details :: destination_details
  v_balance :: rat

definition invalid_amount_response :: response where
  "invalid_amount_response =
     json_response 400
       [(''error'', JStr ''Please enter a valid withdrawal amount''),
        (''success'', JBool False),
        (''code'', JStr ''invalid_amount'')]"

text \<open>The wallet query with \<^verbatim>\<open>.single()\<close>: no wallet on an error or a missing row.\<close>

definition select_wallet :: "env \<Rightarrow> world \<Rightarrow> string \<Rightarrow> rat option" where
  "select_wallet e w uid = (if select_error e then None else user_central_wallets w uid)"

definition validate :: "env \<Rightarrow> request \<Rightarrow> world \<Rightarrow> validated step" where
  "validate e req w =
     (case getUser e of
        None \<Rightarrow> Inl (Return (json_response 401 [(''error'', JStr ''Unauthorized'')]))
      | Some u \<Rightarrow>
     (case req_json req of
        Inl m \<Rightarrow> Inl (Throw m)
      | Inr b \<Rightarrow>
     (case amount b of
        JNum a \<Rightarrow>
          if a = 0 \<or> a \<le> 0 then Inl (Return invalid_amount_response)
          else
          (case destinationDetails b of
             None \<Rightarrow>
               Inl (Return (json_response 400 [(''error'', JStr ''Destination details required'')]))
           | Some dd \<Rightarrow>
               if paymentMethod b = ''bank'' \<and>
                  (\<not> truthy (account_number dd) \<or> \<not> truthy (bank_name dd)
                    \<or> \<not> truthy (account_name dd))
               then Inl (Return (json_response 400
                      [(''error'', JStr ''Bank account details incomplete'')]))
               else if paymentMethod b \<noteq> ''bank'' \<and> \<not> truthy (phone_number dd)
               then Inl (Return (json_response 400
                      [(''error'', JStr ''Phone number required for mobile money withdrawal'')]))
               else
               (case select_wallet e w (user_id u) of
                  None \<Rightarrow>
                    Inl (Return (json_response 404
                      [(''error'', JStr ''Wallet not found''), (''success'', JBool False)]))
                | Some bal \<Rightarrow>
                    if bal < a
                    then Inl (Return (json_response 400
                           [(''error'', JStr ''Insufficient balance''), (''success'', JBool False)]))
                    else if \<not> truthy (PAYSTACK_SECRET_KEY e)
                    then Inl (Return (json_response 500
                           [(''error'', JStr ''Payment service not configured''),
                            (''success'', JBool False)]))
                    else Inr \<lparr>v_user = u, v_amount = a, v_method = paymentMethod b,
                               v_details = dd, v_balance = bal\<rparr>))
      | _ \<Rightarrow> Inl (Return invalid_amount_response))))"

subsection \<open>The fee floor\<close>

definition amount_too_low_response :: "int \<Rightarrow> response" where
  "amount_too_low_response fee =
     json_response 400
       [(''error'', JStr (''Withdrawal amount too low. Minimum amount after fees: KES ''
                          @ show_int (fee + 1))),
        (''success'', JBool False),
        (''code'', JStr ''amount_too_low''),
        (''fee'', JNum (of_int fee))]"

subsection \<open>Recipient resolution\<close>

text \<open>The predicate of \<^verbatim>\<open>banksData.data.find\<close>.\<close>

definition provider_matches :: "string \<Rightarrow> bank_entry \<Rightarrow> bool" where
  "provider_matches method bank =
     (let name = toLowerCase (or_default (bank_entry_name bank) []);
          slug = toLowerCase (or_default (bank_entry_slug bank) []);
          code = toUpperCase (or_default (bank_entry_code bank) [])
      in if method = ''mpesa'' then
           code = ''MPESA'' \<or> str_includes name ''m-pesa'' \<or> str_includes name ''mpesa''
             \<or> str_includes slug ''m-pesa'' \<or> str_includes slug ''mpesa''
         else if method = ''airtel'' then
           code = ''ATL_KE'' \<or> str_includes name ''airtel'' \<or> str_includes slug ''airtel''
         else False)"

text \<open>Lines 220 to 228: the international and the local form of the phone number.\<close>

definition normalize_phone :: "string option \<Rightarrow> string \<times> string" where
  "normalize_phone pn =
     (let rawPhone = trim (or_default pn []);
          phoneNoSpaces = filter (\<lambda>c. c \<noteq> CHR ''-'') (filter (\<lambda>c. \<not> is_space c) rawPhone);
          noPlus = (if startsWith phoneNoSpaces ''+'' then drop 1 phoneNoSpaces
                    else phoneNoSpaces);
          intlPhone = (if startsWith noPlus ''0'' then ''254'' @ drop 1 noPlus
                       else if \<not> startsWith noPlus ''254'' then ''254'' @ noPlus
                       else noPlus);
          localPhone = (if startsWith intlPhone ''254'' then ''0'' @ drop 3 intlPhone
                        else phoneNoSpaces)
      in (intlPhone, localPhone))"

record recipient_result =
  rr_ok :: bool
  rr_data :: "recipient_payload option"
  rr_message :: "string option"

text \<open>\<^verbatim>\<open>createRecipientWithPhone\<close> (lines 232 to 272): the request it posts, what it makes
  of the answer, and the two together.\<close>

definition mobile_request :: "user \<Rightarrow> string \<Rightarrow> bank_entry \<Rightarrow> string \<Rightarrow> recipient_request" where
  "mobile_request u method provider phone =
     MobileMoney (or_default (user_email u) ''User'') phone (bank_entry_code provider) method"

definition recipient_result_of :: "recipient_payload fetch_result \<Rightarrow> recipient_result" where
  "recipient_result_of answer =
     (case answer of
        FetchThrows m \<Rightarrow> \<lparr>rr_ok = False, rr_data = None, rr_message = Some m\<rparr>
      | FetchResponse ok (Inl m) \<Rightarrow>
          \<lparr>rr_ok = False, rr_data = None, rr_message = Some ''Payment service error''\<rparr>
      | FetchResponse ok (Inr d) \<Rightarrow>
          \<lparr>rr_ok = (ok \<and> recipient_status d), rr_data = Some d,
           rr_message = recipient_message d\<rparr>)"

definition createRecipientWithPhone ::
    "env \<Rightarrow> user \<Rightarrow> string \<Rightarrow> bank_entry \<Rightarrow> string \<Rightarrow> world \<Rightarrow> recipient_result \<times> world" where
  "createRecipientWithPhone e u method provider phone w =
     (let rq = mobile_request u method provider phone
      in (recipient_result_of (fetch_transferrecipient e rq), emit (CreateRecipient rq) w))"

text \<open>The condition of line 276 for the second attempt.\<close>

definition retry_with_local :: "recipient_result \<Rightarrow> bool" where
  "retry_with_local r =
     (\<not> rr_ok r \<and>
      (case rr_message r of
         None \<Rightarrow> False
       | Some m \<Rightarrow> str_includes (toLowerCase m) ''account number is invalid''))"

text \<open>The message of the \<^verbatim>\<open>TypeError\<close> raised by \<^verbatim>\<open>.data.recipient_code\<close> when the
  payload has no \<^verbatim>\<open>data\<close> object.\<close>

definition no_data_message :: string where
  "no_data_message = ''Cannot read properties of undefined (reading recipient_code)''"

definition recipient_code_of :: "recipient_payload option \<Rightarrow> string option step" where
  "recipient_code_of d =
     (case d of
        None \<Rightarrow> Inl (Throw no_data_message)
      | Some p \<Rightarrow>
          (case recipient_data p of
             None \<Rightarrow> Inl (Throw no_data_message)
           | Some rc \<Rightarrow> Inr rc))"

text \<open>Lines 274 to 279: the international form first, the local form once if the first
  answer asks for it.\<close>

definition create_with_fallback ::
    "env \<Rightarrow> user \<Rightarrow> string \<Rightarrow> bank_entry \<Rightarrow> string \<Rightarrow> string \<Rightarrow> world \<Rightarrow> recipient_result \<times> world" where
  "create_with_fallback e u method provider intlPhone localPhone w =
     (case createRecipientWithPhone e u method provider intlPhone w of
        (r1, w1) \<Rightarrow>
          if retry_with_local r1
          then createRecipientWithPhone e u method provider localPhone w1
          else (r1, w1))"

definition recipient_failed_response :: "recipient_result \<Rightarrow> response" where
  "recipient_failed_response r =
     json_response 400
       [(''error'', JStr (or_default (rr_message r) ''Failed to create recipient'')),
        (''success'', JBool False)]"

text \<open>The branch for \<^verbatim>\<open>mpesa\<close> and \<^verbatim>\<open>airtel\<close> (lines 156 to 292).\<close>

definition mobile_recipient :: "env \<Rightarrow> validated \<Rightarrow> world \<Rightarrow> string option step \<times> world" where
  "mobile_recipient e v w =
     (let w0 = emit ListProviders w
      in case fetch_banks e of
           FetchThrows m \<Rightarrow> (Inl (Throw m), w0)
         | FetchResponse ok (Inl m) \<Rightarrow>
             (Inl (Return (json_response 500
                [(''error'', JStr ''Payment service error''), (''success'', JBool False)])), w0)
         | FetchResponse ok (Inr banksData) \<Rightarrow>
             if \<not> ok \<or> \<not> banks_status banksData
             then (Inl (Return (json_response 400
                     [(''error'', JStr (or_default (banks_message banksData)
                                          ''Failed to fetch mobile money providers'')),
                      (''success'', JBool False)])), w0)
             else
             (case find (provider_matches (v_method v)) (banks_data banksData) of
                None \<Rightarrow>
                  (Inl (Return (json_response 400
                     [(''error'', JStr (toUpperCase (v_method v) @ '' provider not available'')),
                      (''success'', JBool False)])), w0)
              | Some provider \<Rightarrow>
                  (case normalize_phone (phone_number (v_details v)) of
                     (intlPhone, localPhone) \<Rightarrow>
                  (case create_with_fallback e (v_user v) (v_method v) provider
                          intlPhone localPhone w0 of
                     (r, w1) \<Rightarrow>
                       if \<not> rr_ok r then (Inl (Return (recipient_failed_response r)), w1)
                       else (recipient_code_of (rr_data r), w1)))))"

text \<open>The other branch (lines 294 to 324): a bank recipient, with one call.\<close>

definition bank_recipient :: "env \<Rightarrow> validated \<Rightarrow> world \<Rightarrow> string option step \<times> world" where
  "bank_recipient e v w =
     (let rq = Nuban (account_name (v_details v)) (account_number (v_details v))
                 (bank_name (v_details v));
          w0 = emit (CreateRecipient rq) w
      in case fetch_transferrecipient e rq of
           FetchThrows m \<Rightarrow> (Inl (Throw m), w0)
         | FetchResponse ok (Inl m) \<Rightarrow> (Inl (Throw m), w0)
         | FetchResponse ok (Inr d) \<Rightarrow>
             if \<not> ok \<or> \<not> recipient_status d
             then (Inl (Return (json_response 400
                     [(''error'', JStr (or_default (recipient_message d)
                                          ''Failed to create bank recipient'')),
                      (''success'', JBool False)])), w0)
             else (recipient_code_of (Some d), w0))"

definition resolve_recipient :: "env \<Rightarrow> validated \<Rightarrow> world \<Rightarrow> string option step \<times> world" where
  "resolve_recipient e v w =
     (if v_method v = ''mpesa'' \<or> v_method v = ''airtel''
      then mobile_recipient e v w else bank_recipient e v w)"

subsection \<open>Transfer initiation\<close>

text \<open>\<^verbatim>\<open>Math.round\<close>: the nearest integer, a half rounded up.\<close>

definition Math_round :: "rat \<Rightarrow> int" where
  "Math_round x = \<lfloor>x + 1 / 2\<rfloor>"

definition transfer_request_of :: "env \<Rightarrow> validated \<Rightarrow> string option \<Rightarrow> transfer_request" where
  "transfer_request_of e v recipientCode =
     \<lparr>transfer_amount = Math_round (netAmount (v_amount v) (v_method v) * 100),
      transfer_recipient = recipientCode,
      transfer_reason = ''Wallet withdrawal via '' @ v_method v,
      transfer_ref = ''WD'' @ show_nat (now_transfer e) @ take 8 (user_id (v_user v))\<rparr>"

definition transfer_failed_response :: "transfer_payload \<Rightarrow> response" where
  "transfer_failed_response td =
     (let message = or_default (transfer_message td) ''Transfer failed'';
          errorMessage =
            (if transfer_code td = Some ''insufficient_balance''
                \<or> str_includes (toLowerCase message) ''balance is not enough''
             then ''Service temporarily unavailable. Please try again later or contact support.''
             else message)
      in json_response 400
           [(''error'', JStr errorMessage),
            (''success'', JBool False),
            (''code'', js_string (transfer_code td))])"

text \<open>Lines 326 to 400.\<close>

definition initiate_transfer ::
    "env \<Rightarrow> validated \<Rightarrow> string option \<Rightarrow> world \<Rightarrow> transfer_payload step \<times> world" where
  "initiate_transfer e v recipientCode w =
     (let rq = transfer_request_of e v recipientCode;
          w0 = emit (InitiateTransfer rq) w
      in case fetch_transfer e rq of
           FetchThrows m \<Rightarrow>
             (Inl (Return (json_response 500
                [(''error'', JStr ''Network error. Please try again.''),
                 (''success'', JBool False)])), w0)
         | FetchResponse ok (Inl m) \<Rightarrow>
             (Inl (Return (json_response 500
                [(''error'', JStr ''Payment service error''), (''success'', JBool False)])), w0)
         | FetchResponse ok (Inr transferData) \<Rightarrow>
             if \<not> ok \<or> \<not> transfer_status transferData
             then (Inl (Return (transfer_failed_response transferData)), w0)
             else (Inr transferData, w0))"

subsection \<open>Finalization\<close>

text \<open>The \<^verbatim>\<open>update\<close> of the wallet table, filtered by the user: it writes the rows that
  exist.\<close>

definition update_wallet :: "string \<Rightarrow> rat \<Rightarrow> world \<Rightarrow> world" where
  "update_wallet uid b w =
     (case user_central_wallets w uid of
        None \<Rightarrow> w
      | Some old \<Rightarrow> w\<lparr>user_central_wallets := (user_central_wallets w)(uid \<mapsto> b)\<rparr>)"

definition destination_of :: "validated \<Rightarrow> string option" where
  "destination_of v =
     (if v_method v = ''bank''
      then Some (template (bank_name (v_details v)) @ '' - ''
                   @ template (account_number (v_details v)))
      else phone_number (v_details v))"

definition transaction_of :: "env \<Rightarrow> validated \<Rightarrow> transfer_payload \<Rightarrow> wallet_transaction" where
  "transaction_of e v transferData =
     (let fee = calculateFee (v_amount v) (v_method v)
      in \<lparr>tx_user_id = user_id (v_user v),
          tx_type = ''withdrawal'',
          tx_amount = - v_amount v,
          tx_description = ''Withdrawal to '' @ template (destination_of v)
                             @ '' (Fee: KES '' @ show_int fee @ '')'',
          tx_status = ''completed'',
          tx_reference_id = or_default (transfer_reference transferData)
                              (''WD'' @ show_nat (now_insert e)),
          tx_payment_method = v_method v,
          tx_destination_details = v_details v,
          tx_fee = fee,
          tx_net_amount = v_amount v - of_int fee\<rparr>)"

text \<open>The insert into the ledger table. Its result is awaited and not looked at.\<close>

definition insert_transaction :: "env \<Rightarrow> wallet_transaction \<Rightarrow> world \<Rightarrow> world" where
  "insert_transaction e row w =
     (let w' = emit (InsertTransaction row) w
      in case insert_error e of
           None \<Rightarrow> w'\<lparr>wallet_transactions := wallet_transactions w' @ [row]\<rparr>
         | Some err \<Rightarrow> w')"

definition success_response :: "validated \<Rightarrow> transfer_payload \<Rightarrow> response" where
  "success_response v transferData =
     (let fee = calculateFee (v_amount v) (v_method v)
      in json_response 200
           [(''success'', JBool True),
            (''message'', JStr ''Withdrawal successful''),
            (''amount'', JNum (v_amount v)),
            (''fee'', JNum (of_int fee)),
            (''netAmount'', JNum (v_amount v - of_int fee)),
            (''destination'', js_string (destination_of v)),
            (''paymentMethod'', JStr (v_method v)),
            (''reference'', js_string (transfer_reference transferData)),
            (''newBalance'', JNum (v_balance v - v_amount v))])"

text \<open>Lines 402 to 462.\<close>

definition finalize :: "env \<Rightarrow> validated \<Rightarrow> transfer_payload \<Rightarrow> world \<Rightarrow> exit \<times> world" where
  "finalize e v transferData w =
     (let newBalance = v_balance v - v_amount v;
          w0 = emit (UpdateWallet (user_id (v_user v)) newBalance (now_update e)) w
      in case update_error e of
           Some err \<Rightarrow>
             (Return (json_response 500
                [(''error'', JStr ''Failed to update wallet''), (''success'', JBool False)]), w0)
         | None \<Rightarrow>
             (let w1 = update_wallet (user_id (v_user v)) newBalance w0;
                  w2 = insert_transaction e (transaction_of e v transferData) w1
              in (Return (success_response v transferData), w2)))"

subsection \<open>The handler\<close>

text \<open>Lines 105 to 462: what follows a request that passed validation.\<close>

definition withdraw :: "env \<Rightarrow> validated \<Rightarrow> world \<Rightarrow> exit \<times> world" where
  "withdraw e v w =
     (let fee = calculateFee (v_amount v) (v_method v)
      in if netAmount (v_amount v) (v_method v) \<le> 0
         then (Return (amount_too_low_response fee), w)
         else
         (case resolve_recipient e v w of
            (Inl x, w1) \<Rightarrow> (x, w1)
          | (Inr recipientCode, w1) \<Rightarrow>
              (case initiate_transfer e v recipientCode w1 of
                 (Inl x, w2) \<Rightarrow> (x, w2)
               | (Inr transferData, w2) \<Rightarrow> finalize e v transferData w2)))"

text \<open>The body of the \<^verbatim>\<open>try\<close> block.\<close>

definition try_block :: "env \<Rightarrow> request \<Rightarrow> world \<Rightarrow> exit \<times> world" where
  "try_block e req w =
     (case validate e req w of
        Inl x \<Rightarrow> (x, w)
      | Inr v \<Rightarrow> withdraw e v w)"

text \<open>The \<^verbatim>\<open>catch\<close> clause turns an exception into a response.\<close>

definition catch :: "exit \<Rightarrow> response" where
  "catch x =
     (case x of
        Return r \<Rightarrow> r
      | Throw m \<Rightarrow>
          json_response 500 [(''error'', JStr ''Internal server error''), (''details'', JStr m)])"

definition serve :: "env \<Rightarrow> request \<Rightarrow> world \<Rightarrow> response \<times> world" where
  "serve e req w =
     (if req_method req = ''OPTIONS'' then (\<lparr>status = 200, body = None\<rparr>, w)
      else (case try_block e req w of (x, w') \<Rightarrow> (catch x, w')))"

subsection \<open>Reading a response\<close>

definition field :: "response \<Rightarrow> string \<Rightarrow> jsvalue option" where
  "field r k = (case body r of None \<Rightarrow> None | Some obj \<Rightarrow> map_of obj k)"

text \<open>A success response is one whose payload has \<^verbatim>\<open>success: true\<close>; a failure response
  is one with an \<^verbatim>\<open>error\<close> field.\<close>

definition is_success :: "response \<Rightarrow> bool" where
  "is_success r = (field r ''success'' = Some (JBool True))"

definition is_failure :: "response \<Rightarrow> bool" where
  "is_failure r = (field r ''error'' \<noteq> None)"

text \<open>What every failure response does have: one of the four statuses and an
  \<^verbatim>\<open>error\<close> string.\<close>

definition error_response :: "response \<Rightarrow> bool" where
  "error_response r =
     (status r \<in> set [400, 401, 404, 500] \<and>
      (case field r ''error'' of Some (JStr m) \<Rightarrow> True | _ \<Rightarrow> False) \<and>
      (case field r ''success'' of None \<Rightarrow> True | Some s \<Rightarrow> s = JBool False))"

text \<open>The calls to the payment provider among the events of a trace.\<close>

fun provider_call :: "event \<Rightarrow> bool" where
  "provider_call ListProviders = True"
| "provider_call (CreateRecipient rq) = True"
| "provider_call (InitiateTransfer rq) = True"
| "provider_call (UpdateWallet uid b t) = False"
| "provider_call (InsertTransaction row) = False"


subsection \<open>A concrete scenario\<close>

text \<open>A request, an environment and a world to run the handler on: a member with 5000
  in the wallet withdraws 3000 to an M-PESA number, and every collaborator answers
  well.\<close>

definition member :: user where
  "member = \<lparr>user_id = ''3f2a9c10-77aa-4e0b'', user_email = Some ''member@example.org''\<rparr>"

definition mpesa_entry :: bank_entry where
  "mpesa_entry = \<lparr>bank_entry_name = Some ''M-PESA'', bank_entry_slug = Some ''m-pesa'',
                   bank_entry_code = Some ''MPESA''\<rparr>"

definition mpesa_details :: destination_details where
  "mpesa_details = \<lparr>account_number = None, bank_name = None, account_name = None,
                     phone_number = Some ''0712345678''\<rparr>"

definition mpesa_request :: request where
  "mpesa_request =
     \<lparr>req_method = ''POST'',
      req_json = Inr \<lparr>amount = JNum 3000, paymentMethod = ''mpesa'',
                      destinationDetails = Some mpesa_details\<rparr>\<rparr>"

definition recipient_created :: "recipient_payload fetch_result" where
  "recipient_created =
     FetchResponse True (Inr \<lparr>recipient_status = True,
       recipient_message = Some ''Transfer recipient created successfully'',
       recipient_data = Some (Some ''RCP_1a2b3c'')\<rparr>)"

definition recipient_rejected :: "recipient_payload fetch_result" where
  "recipient_rejected =
     FetchResponse False (Inr \<lparr>recipient_status = False,
       recipient_message = Some ''Account number is invalid'',
       recipient_data = None\<rparr>)"

definition happy_transfer :: transfer_payload where
  "happy_transfer = \<lparr>transfer_status = True,
        transfer_message = Some ''Transfer has been queued'', transfer_code = None,
        transfer_reference = Some ''WD17000000000003f2a9c10''\<rparr>"

definition happy_env :: env where
  "happy_env =
     \<lparr>getUser = Some member,
      select_error = False,
      PAYSTACK_SECRET_KEY = Some ''sk_test'',
      fetch_banks = FetchResponse True (Inr \<lparr>banks_status = True,
        banks_message = Some ''Banks retrieved'', banks_data = [mpesa_entry]\<rparr>),
      fetch_transferrecipient = (\<lambda>rq. recipient_created),
      fetch_transfer = (\<lambda>rq. FetchResponse True (Inr happy_transfer)),
      update_error = None,
      insert_error = None,
      now_transfer = 1700000000000,
      now_update = ''2023-11-14T22:13:20.000Z'',
      now_insert = 1700000000500\<rparr>"

definition start_world :: world where
  "start_world =
     \<lparr>user_central_wallets = [''3f2a9c10-77aa-4e0b'' \<mapsto> 5000],
      wallet_transactions = [],
      trace = []\<rparr>"

text \<open>The provider refuses every recipient as an invalid account number.\<close>

definition rejecting_env :: env where
  "rejecting_env = happy_env\<lparr>fetch_transferrecipient := (\<lambda>rq. recipient_rejected)\<rparr>"

text \<open>The ledger insert reports an error.\<close>

definition ledger_down_env :: env where
  "ledger_down_env = happy_env\<lparr>insert_error := Some ''relation is read-only''\<rparr>"

text \<open>The identity service does not know the caller.\<close>

definition anonymous_env :: env where
  "anonymous_env = happy_env\<lparr>getUser := None\<rparr>"

text \<open>What validation yields on that request, the two recipient requests of the
  fallback, and the transfer answer.\<close>

definition happy_validated :: validated where
  "happy_validated =
     \<lparr>v_user = member, v_amount = 3000, v_method = ''mpesa'', v_details = mpesa_details,
      v_balance = 5000\<rparr>"

definition intl_request :: recipient_request where
  "intl_request = mobile_request member ''mpesa'' mpesa_entry ''254712345678''"

definition local_request :: recipient_request where
  "local_request = mobile_request member ''mpesa'' mpesa_entry ''0712345678''"

text \<open>A bank withdrawal of 20, below the bank fee of 25.\<close>

definition bank_details :: destination_details where
  "bank_details = \<lparr>account_number = Some ''0123456789'', bank_name = Some ''68'',
                    account_name = Some ''A Member'', phone_number = None\<rparr>"

definition small_bank_request :: request where
  "small_bank_request =
     \<lparr>req_method = ''POST'',
      req_json = Inr \<lparr>amount = JNum 20, paymentMethod = ''bank'',
                      destinationDetails = Some bank_details\<rparr>\<rparr>"

definition small_bank_validated :: validated where
  "small_bank_validated =
     \<lparr>v_user = member, v_amount = 20, v_method = ''bank'', v_details = bank_details,
      v_balance = 5000\<rparr>"

text \<open>A request whose body is not JSON.\<close>

definition unparsable_request :: request where
  "unparsable_request =
     \<lparr>req_method = ''POST'', req_json = Inl ''Unexpected end of JSON input''\<rparr>"

section \<open>Properties of the fee function\<close>

lemma floor_005_mono: "(a::rat) \<le> b \<Longrightarrow> \<lfloor>a * 0.005\<rfloor> \<le> \<lfloor>b * 0.005\<rfloor>"
  by (rule floor_mono) simp

lemma floor_001_mono: "(a::rat) \<le> b \<Longrightarrow> \<lfloor>a * 0.001\<rfloor> \<le> \<lfloor>b * 0.001\<rfloor>"
  by (rule floor_mono) simp

lemma floor_005_less: "0 < (a::rat) \<Longrightarrow> of_int \<lfloor>a * 0.005\<rfloor> < a"
proof -
  assume pos: "0 < a"
  have "of_int \<lfloor>a * 0.005\<rfloor> \<le> a * 0.005" by (rule of_int_floor_le)
  also have "\<dots> < a" using pos by simp
  finally show ?thesis .
qed

lemma floor_001_less: "0 < (a::rat) \<Longrightarrow> of_int \<lfloor>a * 0.001\<rfloor> < a"
proof -
  assume pos: "0 < a"
  have "of_int \<lfloor>a * 0.001\<rfloor> \<le> a * 0.001" by (rule of_int_floor_le)
  also have "\<dots> < a" using pos by simp
  finally show ?thesis .
qed

lemma floor_001_small: "(a::rat) \<le> 25 \<Longrightarrow> \<lfloor>a * 0.001\<rfloor> \<le> 25"
proof -
  assume "a \<le> 25"
  then have "a * 0.001 \<le> 25" by simp
  then have "\<lfloor>a * 0.001\<rfloor> \<le> \<lfloor>25::rat\<rfloor>" by (rule floor_mono)
  then show ?thesis by simp
qed

text \<open>
  Claim C2. The fee depends on the amount and the payment method only. For \<^verbatim>\<open>mpesa\<close> it
  is 0 up to 100, 15 up to 2500, 25 up to 3500, 30 up to 5000, 45 up to 7500, 50 up to
  10000 and \<open>max 50 \<lfloor>amount * 0.005\<rfloor>\<close> above; for \<^verbatim>\<open>airtel\<close> it is 0 up to 100, 15 up
  to 2500, 30 up to 5000 and \<open>max 50 \<lfloor>amount * 0.005\<rfloor>\<close> above; for \<^verbatim>\<open>bank\<close> it is
  \<open>max 25 \<lfloor>amount * 0.001\<rfloor>\<close>; for any other method it is 0. The fee of 3000 by
  \<^verbatim>\<open>mpesa\<close> is 25 and the net amount 2975.
\<close>

theorem calculateFee_tiers:
  "(method = ''mpesa'' \<longrightarrow>
      (amt \<le> 100 \<longrightarrow> calculateFee amt method = 0) \<and>
      (100 < amt \<and> amt \<le> 2500 \<longrightarrow> calculateFee amt method = 15) \<and>
      (2500 < amt \<and> amt \<le> 3500 \<longrightarrow> calculateFee amt method = 25) \<and>
      (3500 < amt \<and> amt \<le> 5000 \<longrightarrow> calculateFee amt method = 30) \<and>
      (5000 < amt \<and> amt \<le> 7500 \<longrightarrow> calculateFee amt method = 45) \<and>
      (7500 < amt \<and> amt \<le> 10000 \<longrightarrow> calculateFee amt method = 50) \<and>
      (10000 < amt \<longrightarrow> calculateFee amt method = max 50 \<lfloor>amt * 0.005\<rfloor>)) \<and>
   (method = ''airtel'' \<longrightarrow>
      (amt \<le> 100 \<longrightarrow> calculateFee amt method = 0) \<and>
      (100 < amt \<and> amt \<le> 2500 \<longrightarrow> calculateFee amt method = 15) \<and>
      (2500 < amt \<and> amt \<le> 5000 \<longrightarrow> calculateFee amt method = 30) \<and>
      (5000 < amt \<longrightarrow> calculateFee amt method = max 50 \<lfloor>amt * 0.005\<rfloor>)) \<and>
   (method = ''bank'' \<longrightarrow> calculateFee amt method = max 25 \<lfloor>amt * 0.001\<rfloor>) \<and>
   (method \<noteq> ''mpesa'' \<and> method \<noteq> ''airtel'' \<and> method \<noteq> ''bank'' \<longrightarrow>
      calculateFee amt method = 0) \<and>
   calculateFee 3000 ''mpesa'' = 25 \<and> netAmount 3000 ''mpesa'' = 2975"
  by (simp add: calculateFee_def netAmount_def)

theorem calculateFee_tiers_witness:
  "calculateFee 3000 ''mpesa'' = 25 \<and> calculateFee 4000 ''airtel'' = 30 \<and>
   calculateFee 30000 ''bank'' = 30 \<and> calculateFee 3000 ''card'' = 0 \<and>
   calculateFee 20100 ''mpesa'' = 100"
  using calculateFee_tiers [of "''mpesa''" 3000] calculateFee_tiers [of "''airtel''" 4000]
    calculateFee_tiers [of "''bank''" 30000] calculateFee_tiers [of "''card''" 3000]
    calculateFee_tiers [of "''mpesa''" 20100]
  by (simp add: floor_eq_iff)

text \<open>
  Claim C9. For every method and every amount the fee is not negative, and the fee does
  not decrease when the amount grows. This holds over the whole range of amounts, and so
  within each tier: it is constant on the fixed tiers and follows the floor on the
  proportional ones.
\<close>

theorem calculateFee_nonneg_mono:
  "0 \<le> calculateFee amt method \<and>
   (amt \<le> amt' \<longrightarrow> calculateFee amt method \<le> calculateFee amt' method)"
proof
  show "0 \<le> calculateFee amt method" by (simp add: calculateFee_def max_def)
  show "amt \<le> amt' \<longrightarrow> calculateFee amt method \<le> calculateFee amt' method"
  proof
    assume le: "amt \<le> amt'"
    note f5 = floor_005_mono [OF le] and f1 = floor_001_mono [OF le]
    consider "method = ''mpesa''" | "method = ''airtel''" | "method = ''bank''"
      | "method \<noteq> ''mpesa''" "method \<noteq> ''airtel''" "method \<noteq> ''bank''" by blast
    then show "calculateFee amt method \<le> calculateFee amt' method"
    proof cases
      case 1
      with le f5 show ?thesis unfolding calculateFee_def by (auto simp: le_max_iff_disj)
    next
      case 2
      with le f5 show ?thesis unfolding calculateFee_def by (auto simp: le_max_iff_disj)
    next
      case 3
      with le f1 show ?thesis unfolding calculateFee_def by (auto simp: le_max_iff_disj)
    next
      case 4
      then show ?thesis unfolding calculateFee_def by simp
    qed
  qed
qed

theorem calculateFee_nonneg_mono_witness:
  "(3000::rat) \<le> 20000 \<and> 0 \<le> calculateFee 3000 ''mpesa'' \<and>
   calculateFee 3000 ''mpesa'' \<le> calculateFee 20000 ''mpesa''"
  using calculateFee_nonneg_mono [of 3000 "''mpesa''" 20000] by simp

text \<open>Where the fee reaches the amount.\<close>

lemma fee_below_amount:
  assumes "0 < amt"
  shows "(method = ''mpesa'' \<or> method = ''airtel'' \<longrightarrow>
            of_int (calculateFee amt method) < amt \<and> 0 < netAmount amt method) \<and>
         ((netAmount amt method \<le> 0) = (method = ''bank'' \<and> amt \<le> 25)) \<and>
         (method = ''bank'' \<and> amt \<le> 25 \<longrightarrow>
            calculateFee amt method = 25 \<and> amt \<le> of_int (calculateFee amt method))"
proof -
  note f5 = floor_005_less [OF assms] and f1 = floor_001_less [OF assms]
  have mobile: "of_int (calculateFee amt method) < amt"
    if "method = ''mpesa'' \<or> method = ''airtel''"
    using that assms f5 unfolding calculateFee_def by (auto simp: max_def)
  have bank_small: "calculateFee amt method = 25" if "method = ''bank''" "amt \<le> 25"
    using that floor_001_small [of amt] unfolding calculateFee_def by (simp add: max_def)
  have bank_large: "of_int (calculateFee amt method) < amt" if "method = ''bank''" "25 < amt"
    using that f1 unfolding calculateFee_def by (simp add: max_def)
  have other: "calculateFee amt method = 0"
    if "method \<noteq> ''mpesa''" "method \<noteq> ''airtel''" "method \<noteq> ''bank''"
    using that unfolding calculateFee_def by simp
  have iff: "(netAmount amt method \<le> 0) = (method = ''bank'' \<and> amt \<le> 25)"
  proof (cases "method = ''bank''")
    case True
    show ?thesis
    proof (cases "amt \<le> 25")
      case True
      with \<open>method = ''bank''\<close> bank_small show ?thesis by (simp add: netAmount_def)
    next
      case False
      with \<open>method = ''bank''\<close> bank_large [of] show ?thesis by (simp add: netAmount_def)
    qed
  next
    case False
    show ?thesis
    proof (cases "method = ''mpesa'' \<or> method = ''airtel''")
      case True
      with mobile False show ?thesis by (simp add: netAmount_def)
    next
      case nm: False
      with False other assms show ?thesis by (simp add: netAmount_def)
    qed
  qed
  from mobile bank_small iff show ?thesis by (auto simp: netAmount_def)
qed

section \<open>Phone normalization\<close>


section \<open>The stages of the handler\<close>

lemma emit_simps:
  "user_central_wallets (emit ev w) = user_central_wallets w"
  "wallet_transactions (emit ev w) = wallet_transactions w"
  "trace (emit ev w) = trace w @ [ev]"
  by (simp_all add: emit_def)

lemmas response_defs =
  is_success_def field_def json_response_def JSON_stringify_def

lemma validate_Inr:
  assumes "validate e req w = Inr v"
  shows "\<exists>b. getUser e = Some (v_user v) \<and> req_json req = Inr b \<and>
             amount b = JNum (v_amount v) \<and> 0 < v_amount v \<and>
             paymentMethod b = v_method v \<and> destinationDetails b = Some (v_details v) \<and>
             select_wallet e w (user_id (v_user v)) = Some (v_balance v) \<and>
             v_amount v \<le> v_balance v"
  using assms unfolding validate_def
  by (auto split: option.splits sum.splits jsvalue.splits if_splits)

lemma validate_Return:
  assumes "validate e req w = Inl (Return r)"
  shows "\<not> is_success r"
  using assms unfolding validate_def invalid_amount_response_def
  by (auto simp: response_defs split: option.splits sum.splits jsvalue.splits if_splits)

lemma createRecipientWithPhone_world:
  "snd (createRecipientWithPhone e u m p ph w) =
     emit (CreateRecipient (mobile_request u m p ph)) w"
  by (simp add: createRecipientWithPhone_def Let_def)

lemma create_with_fallback_world:
  assumes "create_with_fallback e u m p i l w = (r, w1)"
  shows "user_central_wallets w1 = user_central_wallets w \<and>
         wallet_transactions w1 = wallet_transactions w \<and>
         (\<exists>evs. trace w1 = trace w @ evs \<and> list_all provider_call evs)"
  using assms
  by (auto simp: create_with_fallback_def createRecipientWithPhone_def Let_def emit_simps
      split: if_splits)

lemma recipient_code_of_exit: "recipient_code_of d \<noteq> Inl (Return r)"
  by (simp add: recipient_code_of_def split: option.split)

lemma mobile_recipient_world:
  assumes "mobile_recipient e v w = (s, w1)"
  shows "user_central_wallets w1 = user_central_wallets w \<and>
         wallet_transactions w1 = wallet_transactions w \<and>
         (\<exists>evs. trace w1 = trace w @ evs \<and> list_all provider_call evs)"
  using assms
  apply (simp add: mobile_recipient_def Let_def
      split: fetch_result.splits sum.splits if_splits option.splits prod.splits)
         apply (auto simp: emit_simps dest!: create_with_fallback_world)
  done

lemma mobile_recipient_Return:
  assumes "mobile_recipient e v w = (Inl (Return r), w1)"
  shows "\<not> is_success r"
  using assms
  apply (simp add: mobile_recipient_def Let_def recipient_failed_response_def
      recipient_code_of_exit
      split: fetch_result.splits sum.splits if_splits option.splits prod.splits)
     apply (auto simp: response_defs)
  done

lemma bank_recipient_world:
  assumes "bank_recipient e v w = (s, w1)"
  shows "user_central_wallets w1 = user_central_wallets w \<and>
         wallet_transactions w1 = wallet_transactions w \<and>
         (\<exists>evs. trace w1 = trace w @ evs \<and> list_all provider_call evs)"
  using assms
  by (auto simp: bank_recipient_def Let_def emit_simps
      split: fetch_result.splits sum.splits if_splits)

lemma bank_recipient_Return:
  assumes "bank_recipient e v w = (Inl (Return r), w1)"
  shows "\<not> is_success r"
  using assms
  by (auto simp: bank_recipient_def Let_def recipient_code_of_exit response_defs
      split: fetch_result.splits sum.splits if_splits)

lemma resolve_recipient_world:
  assumes "resolve_recipient e v w = (s, w1)"
  shows "user_central_wallets w1 = user_central_wallets w \<and>
         wallet_transactions w1 = wallet_transactions w \<and>
         (\<exists>evs. trace w1 = trace w @ evs \<and> list_all provider_call evs)"
  using assms mobile_recipient_world [of e v w s w1] bank_recipient_world [of e v w s w1]
  by (simp add: resolve_recipient_def split: if_splits)

lemma resolve_recipient_Return:
  assumes "resolve_recipient e v w = (Inl (Return r), w1)"
  shows "\<not> is_success r"
  using assms mobile_recipient_Return [of e v w r w1] bank_recipient_Return [of e v w r w1]
  by (simp add: resolve_recipient_def split: if_splits)

lemma initiate_transfer_world:
  "snd (initiate_transfer e v rc w) = emit (InitiateTransfer (transfer_request_of e v rc)) w"
  by (simp add: initiate_transfer_def Let_def split: fetch_result.split sum.split)

lemma initiate_transfer_Inr:
  assumes "initiate_transfer e v rc w = (Inr td, w1)"
  shows "fetch_transfer e (transfer_request_of e v rc) = FetchResponse True (Inr td) \<and>
         transfer_status td"
  using assms
  by (auto simp: initiate_transfer_def Let_def split: fetch_result.splits sum.splits if_splits)

lemma initiate_transfer_Inl:
  assumes "initiate_transfer e v rc w = (Inl x, w1)"
  shows "\<exists>r. x = Return r \<and> \<not> is_success r"
  using assms
  by (auto simp: initiate_transfer_def Let_def transfer_failed_response_def response_defs
      split: fetch_result.splits sum.splits if_splits)

lemma amount_too_low_not_success: "\<not> is_success (amount_too_low_response fee)"
  by (simp add: amount_too_low_response_def response_defs)

lemma is_success_success_response: "is_success (success_response v td)"
  by (simp add: success_response_def response_defs Let_def)

lemma update_failed_not_success:
  "\<not> is_success (json_response 500
      [(''error'', JStr ''Failed to update wallet''), (''success'', JBool False)])"
  by (simp add: response_defs)

lemma finalize_cases:
  assumes "finalize e v td w = (x, w')"
  shows "trace w' = trace w @
           [UpdateWallet (user_id (v_user v)) (v_balance v - v_amount v) (now_update e)]
           @ (if update_error e = None then [InsertTransaction (transaction_of e v td)]
              else []) \<and>
         (update_error e \<noteq> None \<longrightarrow>
            x = Return (json_response 500
              [(''error'', JStr ''Failed to update wallet''), (''success'', JBool False)]) \<and>
            user_central_wallets w' = user_central_wallets w \<and>
            wallet_transactions w' = wallet_transactions w) \<and>
         (update_error e = None \<longrightarrow>
            x = Return (success_response v td) \<and>
            user_central_wallets w' =
              user_central_wallets
                (update_wallet (user_id (v_user v)) (v_balance v - v_amount v) w) \<and>
            wallet_transactions w' =
              (if insert_error e = None
               then wallet_transactions w @ [transaction_of e v td]
               else wallet_transactions w))"
  using assms
  by (auto simp: finalize_def Let_def emit_simps update_wallet_def insert_transaction_def
      split: option.splits)

text \<open>The runs of the handler after validation, by the stage at which they end.\<close>

lemma withdraw_cases [consumes 1, case_names too_low stopped update_failed completed]:
  assumes run: "withdraw e v w = (x, w')"
  obtains
    (too_low)
      "netAmount (v_amount v) (v_method v) \<le> 0" "w' = w"
      "x = Return (amount_too_low_response (calculateFee (v_amount v) (v_method v)))"
  | (stopped) evs where
      "0 < netAmount (v_amount v) (v_method v)"
      "\<And>r. x = Return r \<Longrightarrow> \<not> is_success r"
      "user_central_wallets w' = user_central_wallets w"
      "wallet_transactions w' = wallet_transactions w"
      "trace w' = trace w @ evs" "list_all provider_call evs"
  | (update_failed) evs rc td where
      "0 < netAmount (v_amount v) (v_method v)"
      "list_all provider_call evs"
      "fetch_transfer e (transfer_request_of e v rc) = FetchResponse True (Inr td)"
      "transfer_status td" "update_error e \<noteq> None"
      "x = Return (json_response 500
         [(''error'', JStr ''Failed to update wallet''), (''success'', JBool False)])"
      "user_central_wallets w' = user_central_wallets w"
      "wallet_transactions w' = wallet_transactions w"
      "trace w' = trace w @ evs @ [InitiateTransfer (transfer_request_of e v rc),
         UpdateWallet (user_id (v_user v)) (v_balance v - v_amount v) (now_update e)]"
  | (completed) evs rc td where
      "0 < netAmount (v_amount v) (v_method v)"
      "list_all provider_call evs"
      "fetch_transfer e (transfer_request_of e v rc) = FetchResponse True (Inr td)"
      "transfer_status td" "update_error e = None"
      "x = Return (success_response v td)"
      "user_central_wallets w' =
         user_central_wallets (update_wallet (user_id (v_user v)) (v_balance v - v_amount v) w)"
      "wallet_transactions w' =
         (if insert_error e = None then wallet_transactions w @ [transaction_of e v td]
          else wallet_transactions w)"
      "trace w' = trace w @ evs @ [InitiateTransfer (transfer_request_of e v rc),
         UpdateWallet (user_id (v_user v)) (v_balance v - v_amount v) (now_update e),
         InsertTransaction (transaction_of e v td)]"
proof (cases "netAmount (v_amount v) (v_method v) \<le> 0")
  case True
  with run show ?thesis by (intro too_low) (simp_all add: withdraw_def Let_def)
next
  case False
  then have pos: "0 < netAmount (v_amount v) (v_method v)" by simp
  obtain s w1 where rr: "resolve_recipient e v w = (s, w1)"
    by (cases "resolve_recipient e v w")
  from resolve_recipient_world [OF rr] obtain evs where
    w1: "user_central_wallets w1 = user_central_wallets w"
        "wallet_transactions w1 = wallet_transactions w"
        "trace w1 = trace w @ evs" and evs: "list_all provider_call evs" by blast
  show ?thesis
  proof (cases s)
    case (Inl y)
    with run rr False have xy: "x = y" "w' = w1" by (simp_all add: withdraw_def Let_def)
    show ?thesis
    proof (rule stopped [OF pos])
      show "\<not> is_success r" if "x = Return r" for r
        using resolve_recipient_Return [of e v w r w1] rr Inl xy that by simp
      show "user_central_wallets w' = user_central_wallets w" using w1 xy by simp
      show "wallet_transactions w' = wallet_transactions w" using w1 xy by simp
      show "trace w' = trace w @ evs" using w1 xy by simp
      show "list_all provider_call evs" by (rule evs)
    qed
  next
    case (Inr rc)
    obtain t w2 where it: "initiate_transfer e v rc w1 = (t, w2)"
      by (cases "initiate_transfer e v rc w1")
    from it have w2: "w2 = emit (InitiateTransfer (transfer_request_of e v rc)) w1"
      using initiate_transfer_world [of e v rc w1] by simp
    show ?thesis
    proof (cases t)
      case (Inl y)
      with run rr \<open>s = Inr rc\<close> it False have xy: "x = y" "w' = w2"
        by (simp_all add: withdraw_def Let_def)
      show ?thesis
      proof (rule stopped [OF pos])
        show "\<not> is_success r" if "x = Return r" for r
          using initiate_transfer_Inl [of e v rc w1 y w2] it Inl xy that by auto
        show "user_central_wallets w' = user_central_wallets w"
          using w1 w2 xy by (simp add: emit_simps)
        show "wallet_transactions w' = wallet_transactions w"
          using w1 w2 xy by (simp add: emit_simps)
        show "trace w' = trace w @ (evs @ [InitiateTransfer (transfer_request_of e v rc)])"
          using w1 w2 xy by (simp add: emit_simps)
        show "list_all provider_call (evs @ [InitiateTransfer (transfer_request_of e v rc)])"
          using evs by simp
      qed
    next
      case (Inr td)
      with run rr \<open>s = Inr rc\<close> it False have fin: "finalize e v td w2 = (x, w')"
        by (simp add: withdraw_def Let_def)
      from initiate_transfer_Inr it Inr have ok:
        "fetch_transfer e (transfer_request_of e v rc) = FetchResponse True (Inr td)"
        "transfer_status td" by blast+
      have same: "user_central_wallets w2 = user_central_wallets w"
        "wallet_transactions w2 = wallet_transactions w"
        "trace w2 = trace w @ evs @ [InitiateTransfer (transfer_request_of e v rc)]"
        using w1 w2 by (simp_all add: emit_simps)
      have upd: "user_central_wallets (update_wallet u b w2) =
                 user_central_wallets (update_wallet u b w)" for u b
        using same(1) by (simp add: update_wallet_def split: option.split)
      note fc = finalize_cases [OF fin]
      show ?thesis
      proof (cases "update_error e = None")
        case True
        show ?thesis
        proof (rule completed [OF pos evs ok True])
          show "x = Return (success_response v td)" using fc True by simp
          show "user_central_wallets w' = user_central_wallets
                  (update_wallet (user_id (v_user v)) (v_balance v - v_amount v) w)"
            using fc True upd by simp
          show "wallet_transactions w' =
                  (if insert_error e = None then wallet_transactions w @ [transaction_of e v td]
                   else wallet_transactions w)"
            using fc True same(2) by simp
          show "trace w' = trace w @ evs @ [InitiateTransfer (transfer_request_of e v rc),
                  UpdateWallet (user_id (v_user v)) (v_balance v - v_amount v) (now_update e),
                  InsertTransaction (transaction_of e v td)]"
            using fc True same(3) by simp
        qed
      next
        case False
        show ?thesis
        proof (rule update_failed [OF pos evs ok False])
          show "x = Return (json_response 500
                  [(''error'', JStr ''Failed to update wallet''), (''success'', JBool False)])"
            using fc False by simp
          show "user_central_wallets w' = user_central_wallets w"
            using fc False same(1) by simp
          show "wallet_transactions w' = wallet_transactions w"
            using fc False same(2) by simp
          show "trace w' = trace w @ evs @ [InitiateTransfer (transfer_request_of e v rc),
                  UpdateWallet (user_id (v_user v)) (v_balance v - v_amount v) (now_update e)]"
            using fc False same(3) by simp
        qed
      qed
    qed
  qed
qed

section \<open>The scenario, stage by stage\<close>

lemma validated_simps:
  "v_user happy_validated = member" "v_amount happy_validated = 3000"
  "v_method happy_validated = ''mpesa''" "v_details happy_validated = mpesa_details"
  "v_balance happy_validated = 5000"
  by (simp_all add: happy_validated_def)

lemma happy_env_simps:
  "getUser happy_env = Some member" "select_error happy_env = False"
  "fetch_banks happy_env = FetchResponse True (Inr \<lparr>banks_status = True,
        banks_message = Some ''Banks retrieved'', banks_data = [mpesa_entry]\<rparr>)"
  "fetch_transferrecipient happy_env rq = recipient_created"
  "fetch_transfer happy_env tq = FetchResponse True (Inr happy_transfer)"
  "update_error happy_env = None" "insert_error happy_env = None"
  by (simp_all add: happy_env_def)

lemma validate_happy: "validate happy_env mpesa_request start_world = Inr happy_validated"
  by (simp add: validate_def happy_env_def mpesa_request_def start_world_def select_wallet_def
      truthy_def member_def mpesa_details_def happy_validated_def)

lemma netAmount_happy: "netAmount 3000 ''mpesa'' = 2975"
  by (simp add: netAmount_def calculateFee_def)

lemma provider_happy: "provider_matches ''mpesa'' mpesa_entry"
  by (simp add: provider_matches_def mpesa_entry_def or_default_def toUpperCase_def
      upper_char_def Let_def)

lemma phones_happy:
  "normalize_phone (phone_number mpesa_details) = (''254712345678'', ''0712345678'')"
  by (simp add: mpesa_details_def normalize_phone_def or_default_def trim_def is_space_def
      Let_def)

lemma created_result:
  "rr_ok (recipient_result_of recipient_created)"
  "rr_data (recipient_result_of recipient_created) = Some \<lparr>recipient_status = True,
       recipient_message = Some ''Transfer recipient created successfully'',
       recipient_data = Some (Some ''RCP_1a2b3c'')\<rparr>"
  "\<not> retry_with_local (recipient_result_of recipient_created)"
  by (simp_all add: recipient_result_of_def recipient_created_def retry_with_local_def)

lemma rejected_result:
  "\<not> rr_ok (recipient_result_of recipient_rejected)"
  "rr_message (recipient_result_of recipient_rejected) = Some ''Account number is invalid''"
  "retry_with_local (recipient_result_of recipient_rejected)"
  by (simp_all add: recipient_result_of_def recipient_rejected_def retry_with_local_def
      toLowerCase_def lower_char_def)

lemma resolve_happy:
  "resolve_recipient happy_env happy_validated w =
     (Inr (Some ''RCP_1a2b3c''),
      w\<lparr>trace := trace w @ [ListProviders, CreateRecipient intl_request]\<rparr>)"
  by (simp add: resolve_recipient_def mobile_recipient_def validated_simps happy_env_simps
      provider_happy phones_happy create_with_fallback_def createRecipientWithPhone_def created_result
      recipient_code_of_def emit_def intl_request_def Let_def)

lemma transfer_happy:
  "initiate_transfer happy_env happy_validated rc w =
     (Inr happy_transfer,
      w\<lparr>trace := trace w @
         [InitiateTransfer (transfer_request_of happy_env happy_validated rc)]\<rparr>)"
  by (simp add: initiate_transfer_def happy_env_simps happy_transfer_def emit_def Let_def)

lemma withdraw_happy:
  "fst (withdraw happy_env happy_validated w) =
     Return (success_response happy_validated happy_transfer)"
  by (simp add: withdraw_def validated_simps netAmount_happy resolve_happy transfer_happy finalize_def
     happy_env_simps Let_def)

lemma serve_happy:
  "fst (serve happy_env mpesa_request start_world) =
     success_response happy_validated happy_transfer"
proof -
  have "req_method mpesa_request \<noteq> ''OPTIONS''" by (simp add: mpesa_request_def)
  then show ?thesis
    by (simp add: serve_def try_block_def validate_happy withdraw_happy catch_def case_prod_beta)
qed

section \<open>Properties of the handler\<close>

subsection \<open>The balance after a success\<close>

lemma catch_Throw_not_success: "\<not> is_success (catch (Throw m))"
  by (simp add: catch_def response_defs)

lemma preflight_not_success: "\<not> is_success \<lparr>status = 200, body = None\<rparr>"
  by (simp add: is_success_def field_def)

lemma success_response_newBalance:
  "field (success_response v td) ''newBalance'' = Some (JNum (v_balance v - v_amount v))"
  by (simp add: success_response_def response_defs Let_def js_string_def split: option.split)

lemma success_response_netAmount:
  "field (success_response v td) ''netAmount'' =
     Some (JNum (v_amount v - of_int (calculateFee (v_amount v) (v_method v))))"
  by (simp add: success_response_def response_defs Let_def js_string_def split: option.split)

text \<open>A success response comes from a request that passed validation and a run of
  \<open>withdraw\<close> that returned it.\<close>

lemma serve_success:
  assumes "serve e req w = (r, w')" "is_success r"
  obtains v where "validate e req w = Inr v" "withdraw e v w = (Return r, w')"
proof -
  from assms preflight_not_success have nopt: "req_method req \<noteq> ''OPTIONS''"
    by (auto simp: serve_def)
  obtain x where tb: "try_block e req w = (x, w')" and r: "r = catch x"
    using assms(1) nopt by (auto simp: serve_def split: prod.splits)
  from r assms(2) catch_Throw_not_success obtain r' where x: "x = Return r'"
    by (cases x) auto
  with r have rr: "r' = r" by (simp add: catch_def)
  show ?thesis
  proof (cases "validate e req w")
    case (Inl y)
    with tb x rr have "validate e req w = Inl (Return r)" by (simp add: try_block_def)
    from validate_Return [OF this] assms(2) show ?thesis by simp
  next
    case (Inr v)
    with tb x rr have "withdraw e v w = (Return r, w')" by (simp add: try_block_def)
    with Inr show ?thesis by (rule that)
  qed
qed

text \<open>
  Claim C1. When the handler answers with a success response, the wallet row of the user
  holds the balance read at the start of the request minus the full requested amount
  (the fee is not taken off a second time), and the \<^verbatim>\<open>newBalance\<close> field of the payload
  is that same number.
\<close>

theorem successful_withdrawal_balance:
  assumes "serve e req w = (r, w')" "is_success r"
  shows "\<exists>u b a bal.
           getUser e = Some u \<and> req_json req = Inr b \<and> amount b = JNum a \<and>
           user_central_wallets w (user_id u) = Some bal \<and>
           user_central_wallets w' (user_id u) = Some (bal - a) \<and>
           field r ''newBalance'' = Some (JNum (bal - a))"
proof -
  from assms obtain v where val: "validate e req w = Inr v"
    and run: "withdraw e v w = (Return r, w')" by (rule serve_success)
  from validate_Inr [OF val] obtain b where b:
    "getUser e = Some (v_user v)" "req_json req = Inr b" "amount b = JNum (v_amount v)"
    "select_wallet e w (user_id (v_user v)) = Some (v_balance v)" by blast
  from b(4) have bal: "user_central_wallets w (user_id (v_user v)) = Some (v_balance v)"
    by (simp add: select_wallet_def split: if_splits)
  from run show ?thesis
  proof (cases rule: withdraw_cases)
    case too_low
    with assms(2) amount_too_low_not_success show ?thesis by simp
  next
    case (stopped evs)
    with assms(2) show ?thesis by simp
  next
    case (update_failed evs rc td)
    with assms(2) update_failed_not_success show ?thesis by simp
  next
    case (completed evs rc td)
    from completed(7) bal have
      "user_central_wallets w' (user_id (v_user v)) = Some (v_balance v - v_amount v)"
      by (simp add: update_wallet_def)
    moreover from completed(6) have
      "field r ''newBalance'' = Some (JNum (v_balance v - v_amount v))"
      by (simp add: success_response_newBalance)
    ultimately show ?thesis using b bal by blast
  qed
qed

theorem successful_withdrawal_balance_witness:
  "is_success (fst (serve happy_env mpesa_request start_world)) \<and>
   user_central_wallets start_world (user_id member) = Some 5000 \<and>
   user_central_wallets (snd (serve happy_env mpesa_request start_world)) (user_id member)
     = Some 2000 \<and>
   field (fst (serve happy_env mpesa_request start_world)) ''newBalance'' = Some (JNum 2000)"
proof -
  have s: "is_success (fst (serve happy_env mpesa_request start_world))"
    by (simp add: serve_happy is_success_success_response)
  have p: "serve happy_env mpesa_request start_world =
      (fst (serve happy_env mpesa_request start_world),
       snd (serve happy_env mpesa_request start_world))" by simp
  from successful_withdrawal_balance [OF p s] obtain u b a bal where f:
    "getUser happy_env = Some u" "req_json mpesa_request = Inr b" "amount b = JNum a"
    "user_central_wallets start_world (user_id u) = Some bal"
    "user_central_wallets (snd (serve happy_env mpesa_request start_world)) (user_id u)
       = Some (bal - a)"
    "field (fst (serve happy_env mpesa_request start_world)) ''newBalance''
       = Some (JNum (bal - a))" by blast
  from f(1) have u: "u = member" by (simp add: happy_env_simps)
  from f(2,3) have a: "a = 3000" by (auto simp: mpesa_request_def)
  from f(4) u have bal: "bal = 5000" by (simp add: start_world_def member_def)
  from s f(4,5,6) show ?thesis unfolding u a bal by simp
qed

subsection \<open>The fee floor in the handler\<close>

lemma validate_small_bank:
  "validate happy_env small_bank_request start_world = Inr small_bank_validated"
  by (simp add: validate_def happy_env_def small_bank_request_def start_world_def
      select_wallet_def truthy_def member_def bank_details_def small_bank_validated_def)

lemma netAmount_small_bank: "netAmount 20 ''bank'' = - 5" "calculateFee 20 ''bank'' = 25"
  by (simp_all add: netAmount_def calculateFee_def)

lemma amount_too_low_fields:
  "status (amount_too_low_response fee) = 400"
  "field (amount_too_low_response fee) ''code'' = Some (JStr ''amount_too_low'')"
  "field (amount_too_low_response fee) ''success'' = Some (JBool False)"
  "field (amount_too_low_response fee) ''fee'' = Some (JNum (of_int fee))"
  "field (amount_too_low_response fee) ''error'' =
     Some (JStr (''Withdrawal amount too low. Minimum amount after fees: KES ''
                 @ show_int (fee + 1)))"
  by (simp_all add: amount_too_low_response_def response_defs)

lemma success_response_fields:
  "field (success_response v td) ''amount'' = Some (JNum (v_amount v))"
  "field (success_response v td) ''fee'' =
     Some (JNum (of_int (calculateFee (v_amount v) (v_method v))))"
  by (simp_all add: success_response_def response_defs Let_def)

text \<open>
  Claim C3. For a request that passed the validations, the net amount is the amount
  minus the fee. If it is not positive, the handler answers with status 400 and code
  \<^verbatim>\<open>amount_too_low\<close>, names \<open>fee + 1\<close> as the minimum in the message, and leaves the world
  as it was: nothing was sent to the provider, neither the provider list, nor a recipient,
  nor a transfer. So a success response has a positive net amount, and its payload
  carries the amount, the fee and their difference.
\<close>

theorem fee_floor_before_provider:
  assumes "req_method req \<noteq> ''OPTIONS''" "validate e req w = Inr v"
  shows "netAmount (v_amount v) (v_method v)
           = v_amount v - of_int (calculateFee (v_amount v) (v_method v)) \<and>
         (netAmount (v_amount v) (v_method v) \<le> 0 \<longrightarrow>
            serve e req w
              = (amount_too_low_response (calculateFee (v_amount v) (v_method v)), w) \<and>
            status (fst (serve e req w)) = 400 \<and>
            field (fst (serve e req w)) ''code'' = Some (JStr ''amount_too_low'') \<and>
            field (fst (serve e req w)) ''success'' = Some (JBool False) \<and>
            field (fst (serve e req w)) ''error'' =
              Some (JStr (''Withdrawal amount too low. Minimum amount after fees: KES ''
                          @ show_int (calculateFee (v_amount v) (v_method v) + 1)))) \<and>
         (is_success (fst (serve e req w)) \<longrightarrow>
            0 < netAmount (v_amount v) (v_method v) \<and>
            field (fst (serve e req w)) ''netAmount''
              = Some (JNum (netAmount (v_amount v) (v_method v))) \<and>
            field (fst (serve e req w)) ''amount'' = Some (JNum (v_amount v)) \<and>
            field (fst (serve e req w)) ''fee''
              = Some (JNum (of_int (calculateFee (v_amount v) (v_method v)))))"
proof (intro conjI impI)
  show "netAmount (v_amount v) (v_method v)
          = v_amount v - of_int (calculateFee (v_amount v) (v_method v))"
    by (simp add: netAmount_def)
next
  assume low: "netAmount (v_amount v) (v_method v) \<le> 0"
  with assms show run: "serve e req w
      = (amount_too_low_response (calculateFee (v_amount v) (v_method v)), w)"
    by (simp add: serve_def try_block_def withdraw_def catch_def Let_def)
  show "status (fst (serve e req w)) = 400"
    "field (fst (serve e req w)) ''code'' = Some (JStr ''amount_too_low'')"
    "field (fst (serve e req w)) ''success'' = Some (JBool False)"
    "field (fst (serve e req w)) ''error'' =
        Some (JStr (''Withdrawal amount too low. Minimum amount after fees: KES ''
                    @ show_int (calculateFee (v_amount v) (v_method v) + 1)))"
    by (simp_all add: run amount_too_low_fields)
next
  assume ok: "is_success (fst (serve e req w))"
  have p: "serve e req w = (fst (serve e req w), snd (serve e req w))" by simp
  from p ok obtain v' where v': "validate e req w = Inr v'"
    and run: "withdraw e v' w = (Return (fst (serve e req w)), snd (serve e req w))"
    by (rule serve_success)
  from v' assms(2) have vv: "v' = v" by simp
  from run have "0 < netAmount (v_amount v) (v_method v) \<and>
      (\<exists>td. fst (serve e req w) = success_response v td)" unfolding vv
  proof (cases rule: withdraw_cases)
    case too_low
    with ok amount_too_low_not_success show ?thesis by simp
  next
    case (stopped evs)
    with ok show ?thesis by simp
  next
    case (update_failed evs rc td)
    with ok update_failed_not_success show ?thesis by simp
  next
    case (completed evs rc td)
    then show ?thesis by blast
  qed
  then obtain td where pos: "0 < netAmount (v_amount v) (v_method v)"
    and r: "fst (serve e req w) = success_response v td" by blast
  show "0 < netAmount (v_amount v) (v_method v)" by (rule pos)
  show "field (fst (serve e req w)) ''netAmount''
          = Some (JNum (netAmount (v_amount v) (v_method v)))"
    by (simp add: r success_response_netAmount netAmount_def)
  show "field (fst (serve e req w)) ''amount'' = Some (JNum (v_amount v))"
    "field (fst (serve e req w)) ''fee''
       = Some (JNum (of_int (calculateFee (v_amount v) (v_method v))))"
    by (simp_all add: r success_response_fields)
qed

theorem fee_floor_before_provider_witness:
  "req_method small_bank_request \<noteq> ''OPTIONS'' \<and>
   validate happy_env small_bank_request start_world = Inr small_bank_validated \<and>
   netAmount 20 ''bank'' \<le> 0 \<and>
   serve happy_env small_bank_request start_world = (amount_too_low_response 25, start_world) \<and>
   field (fst (serve happy_env small_bank_request start_world)) ''error'' =
     Some (JStr ''Withdrawal amount too low. Minimum amount after fees: KES 26'') \<and>
   is_success (fst (serve happy_env mpesa_request start_world)) \<and>
   field (fst (serve happy_env mpesa_request start_world)) ''netAmount'' = Some (JNum 2975)"
proof -
  have m: "req_method small_bank_request \<noteq> ''OPTIONS''"
    by (simp add: small_bank_request_def)
  have low: "netAmount (v_amount small_bank_validated) (v_method small_bank_validated) \<le> 0"
    by (simp add: small_bank_validated_def netAmount_small_bank)
  have s26: "show_int 26 = ''26''"
    by (simp add: show_int_def show_nat.simps digit_char_def)
  have m': "req_method mpesa_request \<noteq> ''OPTIONS''" by (simp add: mpesa_request_def)
  have ok: "is_success (fst (serve happy_env mpesa_request start_world))"
    by (simp add: serve_happy is_success_success_response)
  note low_run = fee_floor_before_provider [OF m validate_small_bank]
  from low_run low have
    "serve happy_env small_bank_request start_world
       = (amount_too_low_response
            (calculateFee (v_amount small_bank_validated) (v_method small_bank_validated)),
          start_world)"
    by blast
  then have run: "serve happy_env small_bank_request start_world
      = (amount_too_low_response 25, start_world)"
    by (simp add: small_bank_validated_def netAmount_small_bank)
  from low_run low have
    "field (fst (serve happy_env small_bank_request start_world)) ''error'' =
      Some (JStr (''Withdrawal amount too low. Minimum amount after fees: KES '' @ show_int
        (calculateFee (v_amount small_bank_validated) (v_method small_bank_validated) + 1)))"
    by blast
  then have err: "field (fst (serve happy_env small_bank_request start_world)) ''error'' =
      Some (JStr ''Withdrawal amount too low. Minimum amount after fees: KES 26'')"
    by (simp add: small_bank_validated_def netAmount_small_bank s26)
  from fee_floor_before_provider [OF m' validate_happy] ok have
    "field (fst (serve happy_env mpesa_request start_world)) ''netAmount''
       = Some (JNum (netAmount (v_amount happy_validated) (v_method happy_validated)))"
    by blast
  then have
    net: "field (fst (serve happy_env mpesa_request start_world)) ''netAmount''
            = Some (JNum 2975)"
    by (simp add: validated_simps netAmount_happy)
  from netAmount_small_bank have low': "netAmount 20 ''bank'' \<le> 0" by simp
  from m validate_small_bank low' run err ok net show ?thesis by blast
qed

subsection \<open>Failures and the wallet\<close>

text \<open>The runs of the handler, by where the request is turned away.\<close>

lemma serve_cases [consumes 1, case_names preflight invalid valid]:
  assumes "serve e req w = (r, w')"
  obtains
    (preflight) "req_method req = ''OPTIONS''" "w' = w" "r = \<lparr>status = 200, body = None\<rparr>"
  | (invalid) x where "req_method req \<noteq> ''OPTIONS''" "validate e req w = Inl x" "w' = w"
      "r = catch x"
  | (valid) v x where "req_method req \<noteq> ''OPTIONS''" "validate e req w = Inr v"
      "withdraw e v w = (x, w')" "r = catch x"
proof (cases "req_method req = ''OPTIONS''")
  case True
  with assms show ?thesis by (intro preflight) (simp_all add: serve_def)
next
  case False
  obtain x where tb: "try_block e req w = (x, w')" and r: "r = catch x"
    using assms False by (auto simp: serve_def split: prod.splits)
  show ?thesis
  proof (cases "validate e req w")
    case (Inl y)
    with tb have "x = y" "w' = w" by (simp_all add: try_block_def)
    with False Inl r show ?thesis by (intro invalid) simp_all
  next
    case (Inr v)
    with tb have "withdraw e v w = (x, w')" by (simp add: try_block_def)
    with False Inr r show ?thesis by (intro valid) simp_all
  qed
qed

lemma no_update_among_provider_calls:
  "list_all provider_call evs \<Longrightarrow> UpdateWallet uid b t \<notin> set evs"
  by (auto simp: list_all_iff)

lemma catch_Return: "catch (Return r) = r"
  by (simp add: catch_def)

lemma withdraw_happy_world:
  "snd (withdraw happy_env happy_validated w) =
     w\<lparr>user_central_wallets :=
         user_central_wallets (update_wallet (user_id member) 2000 w),
       wallet_transactions := wallet_transactions w @
         [transaction_of happy_env happy_validated happy_transfer],
       trace := trace w @
         [ListProviders, CreateRecipient intl_request,
          InitiateTransfer (transfer_request_of happy_env happy_validated (Some ''RCP_1a2b3c'')),
          UpdateWallet (user_id member) 2000 (now_update happy_env),
          InsertTransaction (transaction_of happy_env happy_validated happy_transfer)]\<rparr>"
  by (simp add: withdraw_def validated_simps netAmount_happy resolve_happy transfer_happy
      finalize_def happy_env_simps emit_def update_wallet_def insert_transaction_def Let_def
      split: option.split)

lemma serve_happy_world:
  "snd (serve happy_env mpesa_request start_world) =
     snd (withdraw happy_env happy_validated start_world)"
proof -
  have "req_method mpesa_request \<noteq> ''OPTIONS''" by (simp add: mpesa_request_def)
  then show ?thesis
    by (simp add: serve_def try_block_def validate_happy case_prod_beta)
qed

lemma rejecting_env_simps:
  "getUser rejecting_env = Some member" "select_error rejecting_env = False"
  "fetch_banks rejecting_env = fetch_banks happy_env"
  "fetch_transferrecipient rejecting_env rq = recipient_rejected"
  by (simp_all add: rejecting_env_def happy_env_def)

lemma validate_rejecting:
  "validate rejecting_env mpesa_request start_world = Inr happy_validated"
  by (simp add: validate_def rejecting_env_def happy_env_def mpesa_request_def start_world_def
      select_wallet_def truthy_def member_def mpesa_details_def happy_validated_def)

lemma resolve_rejecting:
  "resolve_recipient rejecting_env happy_validated w =
     (Inl (Return (recipient_failed_response (recipient_result_of recipient_rejected))),
      w\<lparr>trace := trace w @
         [ListProviders, CreateRecipient intl_request, CreateRecipient local_request]\<rparr>)"
  by (simp add: resolve_recipient_def mobile_recipient_def validated_simps rejecting_env_simps
      happy_env_simps provider_happy phones_happy create_with_fallback_def
      createRecipientWithPhone_def rejected_result emit_def intl_request_def
      local_request_def Let_def)

lemma serve_rejecting:
  "serve rejecting_env mpesa_request start_world =
     (recipient_failed_response (recipient_result_of recipient_rejected),
      start_world\<lparr>trace :=
         [ListProviders, CreateRecipient intl_request, CreateRecipient local_request]\<rparr>)"
proof -
  have "req_method mpesa_request \<noteq> ''OPTIONS''" by (simp add: mpesa_request_def)
  moreover have "trace start_world = []" by (simp add: start_world_def)
  ultimately show ?thesis
    by (simp add: serve_def try_block_def validate_rejecting withdraw_def validated_simps
        netAmount_happy resolve_rejecting catch_def Let_def)
qed

lemma recipient_failed_not_success: "\<not> is_success (recipient_failed_response x)"
  by (simp add: recipient_failed_response_def response_defs)

text \<open>
  Claim C4. When the handler does not answer with a success response, the wallet table
  is as it was before the request. In every run, an update of the wallet is attempted
  only right after a transfer call that the provider answered with success: before it
  there are calls to the provider only, after it at most the ledger insert.
\<close>

theorem failure_leaves_wallet:
  assumes "serve e req w = (r, w')"
  shows "(\<not> is_success r \<longrightarrow> user_central_wallets w' = user_central_wallets w) \<and>
         (\<exists>evs. trace w' = trace w @ evs \<and>
            (\<forall>uid b t. UpdateWallet uid b t \<in> set evs \<longrightarrow>
               (\<exists>pre rq td post.
                  evs = pre @ [InitiateTransfer rq, UpdateWallet uid b t] @ post \<and>
                  list_all provider_call pre \<and>
                  (post = [] \<or> (\<exists>row. post = [InsertTransaction row])) \<and>
                  fetch_transfer e rq = FetchResponse True (Inr td) \<and>
                  transfer_status td)))"
  using assms
proof (cases rule: serve_cases)
  case preflight
  then have "trace w' = trace w @ []" by simp
  with preflight show ?thesis by fastforce
next
  case (invalid x)
  then have "trace w' = trace w @ []" by simp
  with invalid show ?thesis by fastforce
next
  case (valid v x)
  from valid(3) show ?thesis
  proof (cases rule: withdraw_cases)
    case too_low
    then have "trace w' = trace w @ []" by simp
    with too_low show ?thesis by fastforce
  next
    case (stopped evs)
    from stopped(6) have "\<forall>uid b t. UpdateWallet uid b t \<notin> set evs"
      by (simp add: no_update_among_provider_calls)
    with stopped(3,5) show ?thesis by blast
  next
    case (update_failed evs rc td)
    let ?rq = "transfer_request_of e v rc"
    let ?up = "UpdateWallet (user_id (v_user v)) (v_balance v - v_amount v) (now_update e)"
    have "\<exists>pre rq td post.
            evs @ [InitiateTransfer ?rq, ?up] = pre @ [InitiateTransfer rq, UpdateWallet uid b t] @ post \<and>
            list_all provider_call pre \<and>
            (post = [] \<or> (\<exists>row. post = [InsertTransaction row])) \<and>
            fetch_transfer e rq = FetchResponse True (Inr td) \<and> transfer_status td"
      if "UpdateWallet uid b t \<in> set (evs @ [InitiateTransfer ?rq, ?up])" for uid b t
    proof -
      from that no_update_among_provider_calls [OF update_failed(2)]
      have "UpdateWallet uid b t = ?up" by auto
      then have "evs @ [InitiateTransfer ?rq, ?up]
          = evs @ [InitiateTransfer ?rq, UpdateWallet uid b t] @ []" by simp
      with update_failed(2,3,4) show ?thesis by blast
    qed
    with update_failed(7,9) show ?thesis by blast
  next
    case (completed evs rc td)
    let ?rq = "transfer_request_of e v rc"
    let ?up = "UpdateWallet (user_id (v_user v)) (v_balance v - v_amount v) (now_update e)"
    let ?ins = "InsertTransaction (transaction_of e v td)"
    have "\<exists>pre rq td post.
            evs @ [InitiateTransfer ?rq, ?up, ?ins]
              = pre @ [InitiateTransfer rq, UpdateWallet uid b t] @ post \<and>
            list_all provider_call pre \<and>
            (post = [] \<or> (\<exists>row. post = [InsertTransaction row])) \<and>
            fetch_transfer e rq = FetchResponse True (Inr td) \<and> transfer_status td"
      if "UpdateWallet uid b t \<in> set (evs @ [InitiateTransfer ?rq, ?up, ?ins])" for uid b t
    proof -
      from that no_update_among_provider_calls [OF completed(2)]
      have "UpdateWallet uid b t = ?up" by auto
      then have "evs @ [InitiateTransfer ?rq, ?up, ?ins]
          = evs @ [InitiateTransfer ?rq, UpdateWallet uid b t] @ [?ins]" by simp
      with completed(2,3,4) show ?thesis by blast
    qed
    moreover have "is_success r"
      using valid(4) completed(6) by (simp add: catch_Return is_success_success_response)
    ultimately show ?thesis using completed(9) by blast
  qed
qed

theorem failure_leaves_wallet_witness:
  "\<not> is_success (fst (serve rejecting_env mpesa_request start_world)) \<and>
   user_central_wallets (snd (serve rejecting_env mpesa_request start_world))
     = user_central_wallets start_world \<and>
   UpdateWallet (user_id member) 2000 (now_update happy_env)
     \<in> set (trace (snd (serve happy_env mpesa_request start_world))) \<and>
   (\<exists>pre rq td post.
      trace (snd (serve happy_env mpesa_request start_world))
        = pre @ [InitiateTransfer rq, UpdateWallet (user_id member) 2000 (now_update happy_env)]
            @ post \<and>
      fetch_transfer happy_env rq = FetchResponse True (Inr td) \<and> transfer_status td)"
proof -
  have ns: "\<not> is_success (fst (serve rejecting_env mpesa_request start_world))"
    by (simp add: serve_rejecting recipient_failed_not_success)
  have p: "serve rejecting_env mpesa_request start_world =
      (fst (serve rejecting_env mpesa_request start_world),
       snd (serve rejecting_env mpesa_request start_world))" by simp
  from failure_leaves_wallet [OF p] ns have same:
    "user_central_wallets (snd (serve rejecting_env mpesa_request start_world))
       = user_central_wallets start_world" by blast
  have q: "serve happy_env mpesa_request start_world =
      (fst (serve happy_env mpesa_request start_world),
       snd (serve happy_env mpesa_request start_world))" by simp
  have tr: "trace start_world = []" by (simp add: start_world_def)
  have up: "UpdateWallet (user_id member) 2000 (now_update happy_env)
      \<in> set (trace (snd (serve happy_env mpesa_request start_world)))"
    by (simp add: serve_happy_world withdraw_happy_world)
  from failure_leaves_wallet [OF q] obtain evs where
    evs: "trace (snd (serve happy_env mpesa_request start_world)) = trace start_world @ evs"
    and after: "\<forall>uid b t. UpdateWallet uid b t \<in> set evs \<longrightarrow>
               (\<exists>pre rq td post.
                  evs = pre @ [InitiateTransfer rq, UpdateWallet uid b t] @ post \<and>
                  list_all provider_call pre \<and>
                  (post = [] \<or> (\<exists>row. post = [InsertTransaction row])) \<and>
                  fetch_transfer happy_env rq = FetchResponse True (Inr td) \<and>
                  transfer_status td)" by blast
  from evs tr have evs': "trace (snd (serve happy_env mpesa_request start_world)) = evs"
    by simp
  with up have "UpdateWallet (user_id member) 2000 (now_update happy_env) \<in> set evs" by simp
  with after evs' have "\<exists>pre rq td post.
      trace (snd (serve happy_env mpesa_request start_world))
        = pre @ [InitiateTransfer rq, UpdateWallet (user_id member) 2000 (now_update happy_env)]
            @ post \<and>
      fetch_transfer happy_env rq = FetchResponse True (Inr td) \<and> transfer_status td"
    by metis
  with ns same up show ?thesis by blast
qed

subsection \<open>The recipient fallback\<close>








subsection \<open>The ledger insert\<close>

lemma ledger_down_env_simps:
  "getUser ledger_down_env = Some member" "select_error ledger_down_env = False"
  "fetch_banks ledger_down_env = fetch_banks happy_env"
  "fetch_transferrecipient ledger_down_env rq = recipient_created"
  "fetch_transfer ledger_down_env tq = FetchResponse True (Inr happy_transfer)"
  "update_error ledger_down_env = None"
  "insert_error ledger_down_env = Some ''relation is read-only''"
  "now_update ledger_down_env = now_update happy_env"
  by (simp_all add: ledger_down_env_def happy_env_def)

lemma validate_ledger_down:
  "validate ledger_down_env mpesa_request start_world = Inr happy_validated"
  by (simp add: validate_def ledger_down_env_def happy_env_def mpesa_request_def
      start_world_def select_wallet_def truthy_def member_def mpesa_details_def
      happy_validated_def)

lemma resolve_ledger_down:
  "resolve_recipient ledger_down_env happy_validated w =
     (Inr (Some ''RCP_1a2b3c''),
      w\<lparr>trace := trace w @ [ListProviders, CreateRecipient intl_request]\<rparr>)"
  by (simp add: resolve_recipient_def mobile_recipient_def validated_simps
      ledger_down_env_simps happy_env_simps provider_happy phones_happy
      create_with_fallback_def createRecipientWithPhone_def created_result
      recipient_code_of_def emit_def intl_request_def Let_def)

lemma transfer_ledger_down:
  "initiate_transfer ledger_down_env happy_validated rc w =
     (Inr happy_transfer,
      w\<lparr>trace := trace w @
         [InitiateTransfer (transfer_request_of ledger_down_env happy_validated rc)]\<rparr>)"
  by (simp add: initiate_transfer_def ledger_down_env_simps happy_transfer_def emit_def
      Let_def)

lemma withdraw_ledger_down:
  "withdraw ledger_down_env happy_validated w =
     (Return (success_response happy_validated happy_transfer),
      w\<lparr>user_central_wallets :=
         user_central_wallets (update_wallet (user_id member) 2000 w),
       trace := trace w @
         [ListProviders, CreateRecipient intl_request,
          InitiateTransfer
            (transfer_request_of ledger_down_env happy_validated (Some ''RCP_1a2b3c'')),
          UpdateWallet (user_id member) 2000 (now_update happy_env),
          InsertTransaction (transaction_of ledger_down_env happy_validated happy_transfer)]\<rparr>)"
  by (simp add: withdraw_def validated_simps netAmount_happy resolve_ledger_down
      transfer_ledger_down finalize_def ledger_down_env_simps emit_def update_wallet_def
      insert_transaction_def Let_def split: option.split)

lemma serve_ledger_down:
  "serve ledger_down_env mpesa_request start_world =
     (success_response happy_validated happy_transfer,
      snd (withdraw ledger_down_env happy_validated start_world))"
proof -
  have "req_method mpesa_request \<noteq> ''OPTIONS''" by (simp add: mpesa_request_def)
  then show ?thesis
    by (simp add: serve_def try_block_def validate_ledger_down withdraw_ledger_down
        catch_def)
qed

lemma success_response_status: "status (success_response v td) = 200"
  by (simp add: success_response_def json_response_def Let_def)

text \<open>
  Claim C5 asks for status 500 and no success payload when the provider transfer has
  succeeded and the ledger insert fails. The handler awaits the insert and does not look
  at its result: in the run below the transfer is answered with success, the insert is
  attempted and reports an error, no ledger row is written, and the answer is the success
  payload with status 200.
\<close>

theorem ledger_failure_answered_as_success:
  "fetch_transfer ledger_down_env
      (transfer_request_of ledger_down_env happy_validated (Some ''RCP_1a2b3c''))
     = FetchResponse True (Inr happy_transfer) \<and>
   transfer_status happy_transfer \<and>
   insert_error ledger_down_env = Some ''relation is read-only'' \<and>
   trace (snd (serve ledger_down_env mpesa_request start_world)) =
     [ListProviders, CreateRecipient intl_request,
      InitiateTransfer
        (transfer_request_of ledger_down_env happy_validated (Some ''RCP_1a2b3c'')),
      UpdateWallet (user_id member) 2000 (now_update happy_env),
      InsertTransaction (transaction_of ledger_down_env happy_validated happy_transfer)] \<and>
   wallet_transactions (snd (serve ledger_down_env mpesa_request start_world)) = [] \<and>
   status (fst (serve ledger_down_env mpesa_request start_world)) = 200 \<and>
   is_success (fst (serve ledger_down_env mpesa_request start_world))"
  by (simp add: serve_ledger_down withdraw_ledger_down ledger_down_env_simps
      success_response_status is_success_success_response)
    (simp add: happy_transfer_def start_world_def)

subsection \<open>The shape of the responses\<close>

lemmas shape_defs =
  error_response_def field_def json_response_def JSON_stringify_def

lemma plain_error_shape:
  "st \<in> set [400, 401, 404, 500] \<Longrightarrow> error_response (json_response st [(''error'', JStr m)])"
  by (simp add: shape_defs)

lemma flagged_error_shape:
  "st \<in> set [400, 401, 404, 500] \<Longrightarrow>
   error_response (json_response st [(''error'', JStr m), (''success'', JBool False)])"
  by (simp add: shape_defs)

lemma invalid_amount_shape: "error_response invalid_amount_response"
  by (simp add: invalid_amount_response_def shape_defs)

lemma validate_Return_shape:
  assumes "validate e req w = Inl (Return r)"
  shows "error_response r"
  using assms unfolding validate_def
  by (auto simp: plain_error_shape flagged_error_shape invalid_amount_shape
      split: option.splits sum.splits jsvalue.splits if_splits)

lemma recipient_failed_shape: "error_response (recipient_failed_response x)"
  by (simp add: recipient_failed_response_def flagged_error_shape)

lemma mobile_recipient_Return_shape:
  assumes "mobile_recipient e v w = (Inl (Return r), w1)"
  shows "error_response r"
  using assms
  by (auto simp: mobile_recipient_def Let_def recipient_code_of_exit flagged_error_shape
      recipient_failed_shape
      split: fetch_result.splits sum.splits if_splits option.splits prod.splits)

lemma bank_recipient_Return_shape:
  assumes "bank_recipient e v w = (Inl (Return r), w1)"
  shows "error_response r"
  using assms
  by (auto simp: bank_recipient_def Let_def recipient_code_of_exit flagged_error_shape
      split: fetch_result.splits sum.splits if_splits)

lemma resolve_recipient_Return_shape:
  assumes "resolve_recipient e v w = (Inl (Return r), w1)"
  shows "error_response r"
  using assms mobile_recipient_Return_shape [of e v w r w1]
    bank_recipient_Return_shape [of e v w r w1]
  by (simp add: resolve_recipient_def split: if_splits)

lemma transfer_failed_shape: "error_response (transfer_failed_response td)"
  by (simp add: transfer_failed_response_def shape_defs Let_def js_string_def
      split: option.split)

lemma initiate_transfer_Return_shape:
  assumes "initiate_transfer e v rc w = (Inl (Return r), w1)"
  shows "error_response r"
  using assms
  by (auto simp: initiate_transfer_def Let_def flagged_error_shape transfer_failed_shape
      split: fetch_result.splits sum.splits if_splits)

lemma amount_too_low_shape: "error_response (amount_too_low_response fee)"
  by (simp add: amount_too_low_response_def shape_defs)

lemma finalize_shape:
  assumes "finalize e v td w = (x, w')"
  shows "\<exists>r. x = Return r \<and> (is_success r \<or> error_response r)"
proof (cases "update_error e = None")
  case True
  with finalize_cases [OF assms] have "x = Return (success_response v td)" by simp
  with is_success_success_response show ?thesis by blast
next
  case False
  with finalize_cases [OF assms] have "x = Return (json_response 500
      [(''error'', JStr ''Failed to update wallet''), (''success'', JBool False)])" by simp
  with flagged_error_shape [of 500 "''Failed to update wallet''"] show ?thesis by simp
qed

lemma withdraw_shape:
  assumes "withdraw e v w = (Return r, w')"
  shows "is_success r \<or> error_response r"
proof (cases "netAmount (v_amount v) (v_method v) \<le> 0")
  case True
  with assms amount_too_low_shape show ?thesis by (auto simp: withdraw_def Let_def)
next
  case False
  obtain s w1 where rr: "resolve_recipient e v w = (s, w1)"
    by (cases "resolve_recipient e v w")
  show ?thesis
  proof (cases s)
    case (Inl y)
    with assms rr False have "resolve_recipient e v w = (Inl (Return r), w1)"
      by (simp add: withdraw_def Let_def)
    then show ?thesis by (simp add: resolve_recipient_Return_shape)
  next
    case (Inr rc)
    obtain t w2 where it: "initiate_transfer e v rc w1 = (t, w2)"
      by (cases "initiate_transfer e v rc w1")
    show ?thesis
    proof (cases t)
      case (Inl y)
      with assms rr \<open>s = Inr rc\<close> it False have "y = Return r"
        by (simp add: withdraw_def Let_def)
      with initiate_transfer_Return_shape [of e v rc w1 r w2] it Inl show ?thesis by simp
    next
      case (Inr td)
      with assms rr \<open>s = Inr rc\<close> it False have "finalize e v td w2 = (Return r, w')"
        by (simp add: withdraw_def Let_def)
      from finalize_shape [OF this] show ?thesis by simp
    qed
  qed
qed

lemma catch_Throw_shape: "error_response (catch (Throw m))"
  by (simp add: catch_def shape_defs)

text \<open>Every answer of the handler is the preflight answer, a success response, or
  a response with an \<^verbatim>\<open>error\<close> string, a status among 400, 401, 404 and 500, and a
  \<^verbatim>\<open>success\<close> field that is \<^verbatim>\<open>false\<close> or missing.\<close>

lemma serve_shape:
  assumes "serve e req w = (r, w')"
  shows "r = \<lparr>status = 200, body = None\<rparr> \<or> is_success r \<or> error_response r"
  using assms
proof (cases rule: serve_cases)
  case preflight
  then show ?thesis by simp
next
  case (invalid x)
  show ?thesis
  proof (cases x)
    case (Return r')
    with invalid validate_Return_shape [of e req w r'] show ?thesis
      by (simp add: catch_Return)
  next
    case (Throw m)
    with invalid catch_Throw_shape show ?thesis by simp
  qed
next
  case (valid v x)
  show ?thesis
  proof (cases x)
    case (Return r')
    with valid withdraw_shape [of e v w r' w'] show ?thesis by (simp add: catch_Return)
  next
    case (Throw m)
    with valid catch_Throw_shape show ?thesis by simp
  qed
qed

text \<open>
  Claim C6 asks that every failure response carries \<^verbatim>\<open>success: false\<close>. The answer to a
  caller the identity service does not know is \<^verbatim>\<open>{ error: 'Unauthorized' }\<close> with status
  401, and the answer to a body that does not parse is the one of the \<^verbatim>\<open>catch\<close> clause,
  with \<^verbatim>\<open>error\<close> and \<^verbatim>\<open>details\<close>: neither has a \<^verbatim>\<open>success\<close> field.
\<close>

theorem failure_without_success_field:
  "serve anonymous_env mpesa_request start_world =
     (\<lparr>status = 401, body = Some [(''error'', JStr ''Unauthorized'')]\<rparr>, start_world) \<and>
   is_failure (fst (serve anonymous_env mpesa_request start_world)) \<and>
   field (fst (serve anonymous_env mpesa_request start_world)) ''success'' = None \<and>
   serve happy_env unparsable_request start_world =
     (\<lparr>status = 500, body = Some [(''error'', JStr ''Internal server error''),
         (''details'', JStr ''Unexpected end of JSON input'')]\<rparr>, start_world) \<and>
   is_failure (fst (serve happy_env unparsable_request start_world)) \<and>
   field (fst (serve happy_env unparsable_request start_world)) ''success'' = None"
proof -
  have a: "serve anonymous_env mpesa_request start_world =
     (\<lparr>status = 401, body = Some [(''error'', JStr ''Unauthorized'')]\<rparr>, start_world)"
    by (simp add: serve_def try_block_def validate_def catch_def anonymous_env_def
        mpesa_request_def json_response_def JSON_stringify_def)
  have b: "serve happy_env unparsable_request start_world =
     (\<lparr>status = 500, body = Some [(''error'', JStr ''Internal server error''),
         (''details'', JStr ''Unexpected end of JSON input'')]\<rparr>, start_world)"
    by (simp add: serve_def try_block_def validate_def catch_def happy_env_def
        unparsable_request_def json_response_def JSON_stringify_def)
  show ?thesis by (simp add: a b is_failure_def field_def)
qed

subsection \<open>Where the fee floor applies\<close>

lemma flagged_error_no_fee:
  "field (json_response st [(''error'', JStr m), (''success'', JBool False)]) ''fee'' = None"
  by (simp add: field_def json_response_def JSON_stringify_def)

lemma recipient_failed_no_fee: "field (recipient_failed_response x) ''fee'' = None"
  by (simp add: recipient_failed_response_def flagged_error_no_fee)

lemma transfer_failed_no_fee: "field (transfer_failed_response td) ''fee'' = None"
  by (simp add: transfer_failed_response_def field_def json_response_def JSON_stringify_def
      Let_def js_string_def split: option.split)

lemma mobile_recipient_no_fee:
  assumes "mobile_recipient e v w = (Inl (Return r), w1)"
  shows "field r ''fee'' = None"
  using assms
  by (auto simp: mobile_recipient_def Let_def recipient_code_of_exit flagged_error_no_fee
      recipient_failed_no_fee
      split: fetch_result.splits sum.splits if_splits option.splits prod.splits)

lemma bank_recipient_no_fee:
  assumes "bank_recipient e v w = (Inl (Return r), w1)"
  shows "field r ''fee'' = None"
  using assms
  by (auto simp: bank_recipient_def Let_def recipient_code_of_exit flagged_error_no_fee
      split: fetch_result.splits sum.splits if_splits)

lemma resolve_recipient_no_fee:
  assumes "resolve_recipient e v w = (Inl (Return r), w1)"
  shows "field r ''fee'' = None"
  using assms mobile_recipient_no_fee [of e v w r w1] bank_recipient_no_fee [of e v w r w1]
  by (simp add: resolve_recipient_def split: if_splits)

lemma initiate_transfer_no_fee:
  assumes "initiate_transfer e v rc w = (Inl (Return r), w1)"
  shows "field r ''fee'' = None"
  using assms
  by (auto simp: initiate_transfer_def Let_def flagged_error_no_fee transfer_failed_no_fee
      split: fetch_result.splits sum.splits if_splits)

text \<open>Past the fee floor, a response is a success or has no \<^verbatim>\<open>fee\<close> field.\<close>

lemma withdraw_no_fee:
  assumes "0 < netAmount (v_amount v) (v_method v)" "withdraw e v w = (Return r, w')"
  shows "is_success r \<or> field r ''fee'' = None"
proof -
  from assms(1) have nl: "\<not> netAmount (v_amount v) (v_method v) \<le> 0" by simp
  obtain s w1 where rr: "resolve_recipient e v w = (s, w1)"
    by (cases "resolve_recipient e v w")
  show ?thesis
  proof (cases s)
    case (Inl y)
    with assms rr nl have "resolve_recipient e v w = (Inl (Return r), w1)"
      by (simp add: withdraw_def Let_def)
    then show ?thesis by (simp add: resolve_recipient_no_fee)
  next
    case (Inr rc)
    obtain t w2 where it: "initiate_transfer e v rc w1 = (t, w2)"
      by (cases "initiate_transfer e v rc w1")
    show ?thesis
    proof (cases t)
      case (Inl y)
      with assms rr \<open>s = Inr rc\<close> it nl have "y = Return r"
        by (simp add: withdraw_def Let_def)
      with initiate_transfer_no_fee [of e v rc w1 r w2] it Inl show ?thesis by simp
    next
      case (Inr td)
      with assms rr \<open>s = Inr rc\<close> it nl have fin: "finalize e v td w2 = (Return r, w')"
        by (simp add: withdraw_def Let_def)
      show ?thesis
      proof (cases "update_error e = None")
        case True
        with finalize_cases [OF fin] have "r = success_response v td" by simp
        then show ?thesis by (simp add: is_success_success_response)
      next
        case False
        with finalize_cases [OF fin] have "r = json_response 500
          [(''error'', JStr ''Failed to update wallet''), (''success'', JBool False)]" by simp
        then show ?thesis by (simp add: flagged_error_no_fee)
      qed
    qed
  qed
qed

text \<open>The handler gives the \<^verbatim>\<open>amount_too_low\<close> answer exactly when the net amount is not
  positive.\<close>

lemma serve_too_low_iff:
  assumes "req_method req \<noteq> ''OPTIONS''" "validate e req w = Inr v"
  shows "(fst (serve e req w)
            = amount_too_low_response (calculateFee (v_amount v) (v_method v)))
         = (netAmount (v_amount v) (v_method v) \<le> 0)"
proof
  assume "netAmount (v_amount v) (v_method v) \<le> 0"
  with assms show "fst (serve e req w)
      = amount_too_low_response (calculateFee (v_amount v) (v_method v))"
    by (simp add: serve_def try_block_def withdraw_def catch_def Let_def)
next
  let ?low = "amount_too_low_response (calculateFee (v_amount v) (v_method v))"
  assume low: "fst (serve e req w) = ?low"
  show "netAmount (v_amount v) (v_method v) \<le> 0"
  proof (rule ccontr)
    assume "\<not> netAmount (v_amount v) (v_method v) \<le> 0"
    then have pos: "0 < netAmount (v_amount v) (v_method v)" by simp
    obtain x w' where run: "withdraw e v w = (x, w')" by (cases "withdraw e v w")
    with assms low have c: "catch x = ?low"
      by (simp add: serve_def try_block_def)
    show False
    proof (cases x)
      case (Return r)
      with c have r: "r = ?low" by (simp add: catch_Return)
      from withdraw_no_fee [OF pos] run Return
      have "is_success r \<or> field r ''fee'' = None" by simp
      with r amount_too_low_not_success show False
        by (simp add: amount_too_low_fields)
    next
      case (Throw m)
      with c have "status ?low = status (catch (Throw m))" by simp
      then show False by (simp add: amount_too_low_fields catch_def json_response_def)
    qed
  qed
qed

text \<open>
  Claim C10. For \<^verbatim>\<open>mpesa\<close> and \<^verbatim>\<open>airtel\<close> and every positive amount the fee is below the
  amount, so the net amount is positive and the test \<^verbatim>\<open>netAmount <= 0\<close> that guards the
  \<^verbatim>\<open>amount_too_low\<close> answer fails. For a positive amount that test succeeds exactly for
  method \<^verbatim>\<open>bank\<close> with an amount of at most 25, where the fee is 25 and not below the
  amount. Accordingly, a request that passed validation is answered with
  \<^verbatim>\<open>amount_too_low\<close> exactly when its method is \<^verbatim>\<open>bank\<close> and its amount at most 25.
\<close>

theorem amount_too_low_only_bank:
  assumes "0 < amt"
  shows "(method = ''mpesa'' \<or> method = ''airtel'' \<longrightarrow>
            of_int (calculateFee amt method) < amt \<and> 0 < netAmount amt method) \<and>
         ((netAmount amt method \<le> 0) = (method = ''bank'' \<and> amt \<le> 25)) \<and>
         (method = ''bank'' \<and> amt \<le> 25 \<longrightarrow>
            calculateFee amt method = 25 \<and> amt \<le> of_int (calculateFee amt method)) \<and>
         (\<forall>e req w v.
            req_method req \<noteq> ''OPTIONS'' \<and> validate e req w = Inr v \<and>
            v_amount v = amt \<and> v_method v = method \<longrightarrow>
            (fst (serve e req w) = amount_too_low_response (calculateFee amt method))
              = (method = ''bank'' \<and> amt \<le> 25))"
proof -
  note arith = fee_below_amount [OF assms, of "method"]
  have "(fst (serve e req w) = amount_too_low_response (calculateFee amt method))
          = (method = ''bank'' \<and> amt \<le> 25)"
    if "req_method req \<noteq> ''OPTIONS''" "validate e req w = Inr v"
      "v_amount v = amt" "v_method v = method" for e req w v
    using serve_too_low_iff [OF that(1,2)] that(3,4) arith by simp
  with arith show ?thesis by blast
qed

theorem amount_too_low_only_bank_witness:
  "(0::rat) < 20 \<and> netAmount 20 ''bank'' \<le> 0 \<and> calculateFee 20 ''bank'' = 25 \<and>
   0 < netAmount 20 ''mpesa'' \<and> 0 < netAmount 26 ''bank'' \<and>
   req_method small_bank_request \<noteq> ''OPTIONS'' \<and>
   validate happy_env small_bank_request start_world = Inr small_bank_validated \<and>
   fst (serve happy_env small_bank_request start_world) = amount_too_low_response 25"
proof -
  have m: "req_method small_bank_request \<noteq> ''OPTIONS''"
    by (simp add: small_bank_request_def)
  have v: "v_amount small_bank_validated = 20" "v_method small_bank_validated = ''bank''"
    by (simp_all add: small_bank_validated_def)
  have pos: "(0::rat) < 20" by simp
  note bank = amount_too_low_only_bank [OF pos, of "''bank''"]
  from bank have fee: "calculateFee 20 ''bank'' = 25" and low: "netAmount 20 ''bank'' \<le> 0"
    by simp_all
  from bank m validate_small_bank v
  have "(fst (serve happy_env small_bank_request start_world)
           = amount_too_low_response (calculateFee 20 ''bank''))
        = (''bank'' = ''bank'' \<and> (20::rat) \<le> 25)"
    by blast
  with fee have answer:
    "fst (serve happy_env small_bank_request start_world) = amount_too_low_response 25"
    by simp
  from amount_too_low_only_bank [of 20 "''mpesa''"]
  have mobile: "0 < netAmount 20 ''mpesa''" by simp
  from amount_too_low_only_bank [of 26 "''bank''"]
  have large: "0 < netAmount 26 ''bank''" by simp
  from pos fee low mobile large m validate_small_bank answer show ?thesis by simp
qed

end
